theory Spec2Isabelle
  imports Complex_Main
begin

section \<open>Data model of \<open>lib/stellar-client.ts\<close>\<close>

text \<open>
  The union type \<open>'pending' | 'completed' | 'failed'\<close> of the status of a trade
  result, a record that only the program itself constructs, is an enumeration;
  \<open>status_label\<close> gives back the string each label is at run time.
\<close>

datatype status = Pending | Completed | Failed


text \<open>
  A JavaScript number as far as the program looks at it: the program parses numbers,
  compares them with \<open>NaN\<close> and stores the constant \<open>1\<close>; it does no arithmetic.
\<close>

datatype js_number = NaN | PosInfinity | NegInfinity | Num rat

text \<open>
  \<open>interface TradeResult\<close>. The fields carry the prefix \<open>tr_\<close> because \<open>id\<close>,
  \<open>amount\<close> and \<open>status\<close> are also fields of the display record \<open>Transaction\<close>.
\<close>

record TradeResult =
  tr_id :: string
  tr_fromAsset :: string
  tr_toAsset :: string
  tr_amount :: js_number
  tr_rate :: js_number
  tr_timestamp :: nat
  tr_hash :: string
  tr_status :: status

text \<open>
  A value thrown by the client library or by \<open>new Error(msg)\<close>: an object whose
  \<open>message\<close> may be missing, and which may carry \<open>response.data\<close>
  (\<open>response_data\<close> is \<open>Some d\<close> exactly when \<open>error.response\<close> and
  \<open>error.response.data\<close> are both truthy).
\<close>

datatype js_error = JsError (message: "string option") (response_data: "string option")

definition Error :: "string \<Rightarrow> js_error" where
  "Error msg = JsError (Some msg) None"

text \<open>\<open>error?.message || dflt\<close>: a missing or empty message gives the default.\<close>

definition message_or :: "js_error \<Rightarrow> string \<Rightarrow> string" where
  "message_or error dflt =
     (case message error of
        None \<Rightarrow> dflt
      | Some m \<Rightarrow> (if m = [] then dflt else m))"

text \<open>The client library's key pair, account response, asset, operation and transaction.\<close>

datatype Keypair = MkKeypair (secret: string) (publicKey: string)

record balance_line =
  asset_type :: string
  asset_code :: "string option"
  line_balance :: string

record account =
  account_id :: string
  sequence :: nat
  balances :: "balance_line list"

datatype asset = Native | Asset string string

record payment_op =
  op_destination :: string
  op_asset :: asset
  op_amount :: string
  op_source :: string

text \<open>
  The state of a \<open>TransactionBuilder\<close>: what the constructor receives and what
  \<open>addOperation\<close>, \<open>addMemo\<close> and \<open>setTimeout\<close> add to it.
\<close>

record tx_builder =
  b_source :: account
  b_fee :: string
  b_networkPassphrase :: string
  b_operations :: "payment_op list"
  b_memo :: "string option"
  b_timeout :: "nat option"

record transaction =
  contents :: tx_builder
  signatures :: "Keypair list"

record submit_result =
  result_hash :: string

text \<open>What the program does to the outside, in the order it does it.\<close>

datatype log_arg = ErrArg js_error | DataArg string

datatype event =
    LoadAccount string string
  | SubmitTransaction string transaction
  | ConsoleError string log_arg
  | ToastError string
  | ToastSuccess string
  | ToastWarning string

fun is_submit :: "event \<Rightarrow> bool" where
  "is_submit (SubmitTransaction _ _) = True"
| "is_submit _ = False"

fun is_network :: "event \<Rightarrow> bool" where
  "is_network (LoadAccount _ _) = True"
| "is_network (SubmitTransaction _ _) = True"
| "is_network _ = False"

text \<open>
  Everything the program calls and does not define: the client library's validations
  (each may throw), the remote server behind \<open>this.server\<close> (its answer may depend on
  everything that happened before, so it receives the events so far), and the
  JavaScript built-ins \<open>parseFloat\<close>, \<open>Number\<close> and \<open>new Date()\<close>.
\<close>

record env =
  networks_TESTNET :: string
  networks_PUBLIC :: string
  fromSecret :: "string \<Rightarrow> js_error + Keypair"
  asset_error :: "string \<Rightarrow> string \<Rightarrow> js_error option"
  payment_error :: "payment_op \<Rightarrow> js_error option"
  memo_error :: "string \<Rightarrow> js_error option"
  build_error :: "tx_builder \<Rightarrow> js_error option"
  loadAccount :: "string \<Rightarrow> event list \<Rightarrow> string \<Rightarrow> js_error + account"
  submitTransaction :: "string \<Rightarrow> event list \<Rightarrow> transaction \<Rightarrow> js_error + submit_result"
  parseFloat :: "string \<Rightarrow> js_number"
  Number :: "string \<Rightarrow> js_number"
  toFixed :: "js_number \<Rightarrow> nat \<Rightarrow> string"
  now :: "event list \<Rightarrow> nat"

text \<open>\<open>class StellarTrader\<close>: its three fields, and the state its methods run in.\<close>

record StellarTrader =
  server :: string
  keypair :: "Keypair option"
  networkPassphrase :: string

record state =
  trader :: StellarTrader
  trace :: "event list"

datatype network = Testnet | Public

definition new_StellarTrader :: "env \<Rightarrow> network \<Rightarrow> StellarTrader" where
  "new_StellarTrader E nw =
     \<lparr> server = (if nw = Testnet then ''https://horizon-testnet.stellar.org''
                  else ''https://horizon.stellar.org''),
       keypair = None,
       networkPassphrase = (if nw = Testnet then networks_TESTNET E else networks_PUBLIC E) \<rparr>"

definition emit :: "event \<Rightarrow> state \<Rightarrow> state" where
  "emit e s = s\<lparr>trace := trace s @ [e]\<rparr>"

definition isReady :: "state \<Rightarrow> bool" where
  "isReady s = (keypair (trader s) \<noteq> None)"

text \<open>
  \<open>connect\<close>: the assignment to \<open>this.keypair\<close> happens only when
  \<open>Keypair.fromSecret\<close> returns; when it throws, the catch logs and returns false.
\<close>

definition connect :: "env \<Rightarrow> string \<Rightarrow> state \<Rightarrow> (js_error + bool) \<times> state" where
  "connect E secretKey s =
     (case fromSecret E secretKey of
        Inr kp \<Rightarrow> (Inr True, s\<lparr>trader := (trader s)\<lparr>keypair := Some kp\<rparr>\<rparr>)
      | Inl error \<Rightarrow>
          (Inr False, emit (ConsoleError ''Failed to connect with secret key:'' (ErrArg error)) s))"

text \<open>
  The part of the try block of \<open>executePayment\<close> between the two network calls: it
  builds the payment operation (the object literal is evaluated first, so \<open>new Asset\<close>
  throws before \<open>Operation.payment\<close> does), adds the memo when it is not empty, sets
  the timeout, builds, and signs with the key pair.
\<close>

definition throw_if :: "js_error option \<Rightarrow> (js_error + 'a) \<Rightarrow> js_error + 'a" where
  "throw_if chk k = (case chk of Some e \<Rightarrow> Inl e | None \<Rightarrow> k)"

definition build_payment ::
  "env \<Rightarrow> StellarTrader \<Rightarrow> Keypair \<Rightarrow> account \<Rightarrow> string \<Rightarrow> string \<Rightarrow> string \<Rightarrow> string
     \<Rightarrow> js_error + transaction" where
  "build_payment E t kp sourceAccount destination amount assetCode memo =
     (let b0 = \<lparr> b_source = sourceAccount, b_fee = ''100'',
                 b_networkPassphrase = networkPassphrase t,
                 b_operations = [], b_memo = None, b_timeout = None \<rparr>
      in throw_if (if assetCode = ''XLM'' then None else asset_error E assetCode (publicKey kp))
        (let p = \<lparr> op_destination = destination,
                    op_asset = (if assetCode = ''XLM'' then Native
                                else Asset assetCode (publicKey kp)),
                    op_amount = amount,
                    op_source = publicKey kp \<rparr>
         in throw_if (payment_error E p)
           (let b1 = b0\<lparr>b_operations := b_operations b0 @ [p]\<rparr>
            in throw_if (if memo = [] then None else memo_error E memo)
              (let b2 = (if memo = [] then b1 else b1\<lparr>b_memo := Some memo\<rparr>);
                   b3 = b2\<lparr>b_timeout := Some 30\<rparr>
               in throw_if (build_error E b3)
                    (Inr \<lparr> contents = b3, signatures = [kp] \<rparr>)))))"

text \<open>The try block of \<open>executePayment\<close>: load, build and sign, submit, result.\<close>

definition payment_try ::
  "env \<Rightarrow> Keypair \<Rightarrow> string \<Rightarrow> string \<Rightarrow> string \<Rightarrow> string \<Rightarrow> state
     \<Rightarrow> (js_error + TradeResult) \<times> state" where
  "payment_try E kp destination amount assetCode memo s =
     (let srv = server (trader s);
          s1 = emit (LoadAccount srv (publicKey kp)) s
      in case loadAccount E srv (trace s) (publicKey kp) of
           Inl e \<Rightarrow> (Inl e, s1)
         | Inr sourceAccount \<Rightarrow>
             (case build_payment E (trader s) kp sourceAccount destination amount assetCode memo of
                Inl e \<Rightarrow> (Inl e, s1)
              | Inr builtTransaction \<Rightarrow>
                  (let s2 = emit (SubmitTransaction srv builtTransaction) s1
                   in case submitTransaction E srv (trace s1) builtTransaction of
                        Inl e \<Rightarrow> (Inl e, s2)
                      | Inr result \<Rightarrow>
                          (Inr \<lparr> tr_id = result_hash result,
                                 tr_fromAsset = assetCode,
                                 tr_toAsset = ''XLM'',
                                 tr_amount = parseFloat E amount,
                                 tr_rate = Num 1,
                                 tr_timestamp = now E (trace s2),
                                 tr_hash = result_hash result,
                                 tr_status = Completed \<rparr>, s2))))"

definition not_connected :: string where
  "not_connected = ''Not connected. Call connect() with a valid secret key first.''"

text \<open>
  \<open>executePayment\<close>. An omitted \<open>assetCode\<close> or \<open>memo\<close> (\<open>None\<close>) takes the default
  of the signature. The check of the key pair is before the try block, so its error is
  not wrapped; everything thrown inside the try block is logged and wrapped.
\<close>

definition default_arg :: "string option \<Rightarrow> string \<Rightarrow> string" where
  "default_arg a dflt = (case a of None \<Rightarrow> dflt | Some v \<Rightarrow> v)"

definition executePayment ::
  "env \<Rightarrow> string \<Rightarrow> string \<Rightarrow> string option \<Rightarrow> string option \<Rightarrow> state
     \<Rightarrow> (js_error + TradeResult) \<times> state" where
  "executePayment E destination amount assetCode memo s =
     (case keypair (trader s) of
        None \<Rightarrow> (Inl (Error not_connected), s)
      | Some kp \<Rightarrow>
          (case payment_try E kp destination amount
                  (default_arg assetCode ''XLM'') (default_arg memo []) s of
             (Inr r, s') \<Rightarrow> (Inr r, s')
           | (Inl error, s') \<Rightarrow>
               (let s1 = emit (ConsoleError ''Transaction failed:'' (ErrArg error)) s';
                    s2 = (case response_data error of
                            Some d \<Rightarrow> emit (ConsoleError ''Error details:'' (DataArg d)) s1
                          | None \<Rightarrow> s1)
                in (Inl (Error (''Payment failed: '' @ message_or error ''Unknown error'')), s2))))"

text \<open>
  \<open>getAccountBalance\<close>. \<open>find(...)?.balance || '0'\<close>: no matching line, or an empty
  balance string, gives \<open>'0'\<close>.
\<close>

record balance_pair =
  xlm :: string
  usd :: string

definition balance_of :: "(balance_line \<Rightarrow> bool) \<Rightarrow> balance_line list \<Rightarrow> string" where
  "balance_of P bs =
     (case find P bs of
        None \<Rightarrow> ''0''
      | Some b \<Rightarrow> (if line_balance b = [] then ''0'' else line_balance b))"

definition getAccountBalance ::
  "env \<Rightarrow> string \<Rightarrow> state \<Rightarrow> (js_error + balance_pair) \<times> state" where
  "getAccountBalance E pk s =
     (let srv = server (trader s);
          s1 = emit (LoadAccount srv pk) s
      in case loadAccount E srv (trace s) pk of
           Inr acct \<Rightarrow>
             (Inr \<lparr> xlm = balance_of (\<lambda>b. asset_type b = ''native'') (balances acct),
                    usd = balance_of (\<lambda>b. asset_code b = Some ''USD'') (balances acct) \<rparr>, s1)
         | Inl error \<Rightarrow>
             (Inl (Error (''Failed to get account balance: '' @ message_or error ''Unknown error'')),
              emit (ConsoleError ''Failed to get account balance:'' (ErrArg error)) s1))"

section \<open>The payment form of \<open>components/ui/stellar-trade-executor.tsx\<close>\<close>

text \<open>
  The component's state variables, and the application around them: the singleton
  trader with the event trace, and the item \<open>stellar_secret_key\<close> of the browser's
  local storage, which the component reads and never writes.
\<close>

datatype connection = Disconnected | Connected

record ui =
  amount :: string
  fromCurrency :: string
  toCurrency :: string
  destination :: string
  memo :: string
  showPaymentDialog :: bool
  isExecuting :: bool
  stellarStatus :: connection
  balance :: "balance_pair option"
  isLoading :: bool
  lastTrade :: "TradeResult option"

record app =
  core :: state
  ui_state :: ui
  stellar_secret_key :: "string option"

definition initial_ui :: ui where
  "initial_ui =
     \<lparr> amount = [], fromCurrency = ''XLM'', toCurrency = ''XLM'', destination = [],
       memo = [], showPaymentDialog = False, isExecuting = False,
       stellarStatus = Disconnected, balance = None, isLoading = False, lastTrade = None \<rparr>"

definition emit_app :: "event \<Rightarrow> app \<Rightarrow> app" where
  "emit_app e a = a\<lparr>core := emit e (core a)\<rparr>"

text \<open>\<open>${error.message}\<close> in a template string: a missing message prints as \<open>undefined\<close>.\<close>

definition message_text :: "js_error \<Rightarrow> string" where
  "message_text error = (case message error of Some m \<Rightarrow> m | None \<Rightarrow> ''undefined'')"

text \<open>\<open>!secretKey\<close>: the item is missing or is the empty string.\<close>

definition truthy :: "string option \<Rightarrow> bool" where
  "truthy v = (case v of None \<Rightarrow> False | Some x \<Rightarrow> x \<noteq> [])"

text \<open>The effect run when the component mounts.\<close>

definition connectToStellar :: "env \<Rightarrow> app \<Rightarrow> app" where
  "connectToStellar E a =
     (let a1 = a\<lparr>ui_state := (ui_state a)\<lparr>isLoading := True\<rparr>\<rparr>;
          a2 =
            (case stellar_secret_key a1 of
               None \<Rightarrow>
                 emit_app (ToastWarning ''Please set your Stellar secret key in the wallet settings'') a1
             | Some secretKey \<Rightarrow>
                 (if secretKey = [] then
                    emit_app (ToastWarning ''Please set your Stellar secret key in the wallet settings'') a1
                  else
                    (case connect E secretKey (core a1) of
                       (Inl error, s') \<Rightarrow>
                         emit_app (ToastError (''Connection failed: '' @ message_text error))
                           (emit_app (ConsoleError ''Failed to connect to Stellar network:'' (ErrArg error))
                              (a1\<lparr>core := s'\<rparr>))
                     | (Inr connected_ok, s') \<Rightarrow>
                         (if connected_ok then
                            (let a3 = a1\<lparr>core := s',
                                          ui_state := (ui_state a1)\<lparr>stellarStatus := Connected\<rparr>\<rparr>
                             in case getAccountBalance E secretKey (core a3) of
                                  (Inl error, s'') \<Rightarrow>
                                    emit_app (ToastError (''Connection failed: '' @ message_text error))
                                      (emit_app (ConsoleError ''Failed to connect to Stellar network:'' (ErrArg error))
                                         (a3\<lparr>core := s''\<rparr>))
                                | (Inr accountBalance, s'') \<Rightarrow>
                                    emit_app (ToastSuccess ''Connected to Stellar network'')
                                      (a3\<lparr>core := s'',
                                          ui_state := (ui_state a3)\<lparr>balance := Some accountBalance\<rparr>\<rparr>))
                          else a1\<lparr>core := s'\<rparr>))))
      in a2\<lparr>ui_state := (ui_state a2)\<lparr>isLoading := False\<rparr>\<rparr>)"

text \<open>The catch block and the form reset of \<open>handleExecutePayment\<close>.\<close>

definition handler_catch :: "js_error \<Rightarrow> app \<Rightarrow> app" where
  "handler_catch error a =
     emit_app (ToastError (''Payment failed: '' @ message_text error))
       (emit_app (ConsoleError ''Payment failed:'' (ErrArg error)) a)"

definition reset_form :: "app \<Rightarrow> app" where
  "reset_form a =
     a\<lparr>ui_state := (ui_state a)\<lparr>amount := [], destination := [], memo := [],
                                  showPaymentDialog := False\<rparr>\<rparr>"

text \<open>
  The guard of \<open>handleExecutePayment\<close>:
  \<open>!amount || isNaN(Number(amount)) || !destination\<close>.
\<close>

definition form_incomplete :: "env \<Rightarrow> ui \<Rightarrow> bool" where
  "form_incomplete E u = (amount u = [] \<or> Number E (amount u) = NaN \<or> destination u = [])"

text \<open>
  What follows a returned payment: the result is stored and announced, and when local
  storage holds a secret key the balance is asked for with that string as the argument
  of \<open>getAccountBalance\<close>; an error there goes to the same catch block.
\<close>

definition after_payment :: "env \<Rightarrow> TradeResult \<Rightarrow> app \<Rightarrow> app" where
  "after_payment E result a =
     (let a3 = emit_app (ToastSuccess ''Payment executed successfully!'')
                 (a\<lparr>ui_state := (ui_state a)\<lparr>lastTrade := Some result\<rparr>\<rparr>)
      in if truthy (stellar_secret_key a3) then
           (case getAccountBalance E (the (stellar_secret_key a3)) (core a3) of
              (Inl error, s'') \<Rightarrow> handler_catch error (a3\<lparr>core := s''\<rparr>)
            | (Inr accountBalance, s'') \<Rightarrow>
                reset_form (a3\<lparr>core := s'',
                               ui_state := (ui_state a3)\<lparr>balance := Some accountBalance\<rparr>\<rparr>))
         else reset_form a3)"

definition handleExecutePayment :: "env \<Rightarrow> app \<Rightarrow> app" where
  "handleExecutePayment E a =
     (let u = ui_state a
      in if form_incomplete E u then
           emit_app (ToastError ''Please fill in all required fields'') a
         else
           (let a1 = a\<lparr>ui_state := u\<lparr>isExecuting := True\<rparr>\<rparr>;
                a2 = (case executePayment E (destination u) (amount u)
                             (Some (fromCurrency u)) (Some (memo u)) (core a1) of
                        (Inl error, s') \<Rightarrow> handler_catch error (a1\<lparr>core := s'\<rparr>)
                      | (Inr result, s') \<Rightarrow> after_payment E result (a1\<lparr>core := s'\<rparr>))
            in a2\<lparr>ui_state := (ui_state a2)\<lparr>isExecuting := False\<rparr>\<rparr>))"

text \<open>The balance shown in the card's header: nothing while \<open>balance\<close> is null.\<close>

definition balance_text :: "env \<Rightarrow> ui \<Rightarrow> string option" where
  "balance_text E u =
     (case balance u of
        None \<Rightarrow> None
      | Some b \<Rightarrow> Some (toFixed E (parseFloat E (xlm b)) 2 @ '' XLM''))"

definition handleOpenPaymentDialog :: "app \<Rightarrow> app" where
  "handleOpenPaymentDialog a =
     (if \<not> isReady (core a) then emit_app (ToastError ''Please connect your wallet first'') a
      else a\<lparr>ui_state := (ui_state a)\<lparr>showPaymentDialog := True\<rparr>\<rparr>)"

text \<open>The events a run added to the trace, and the network calls among them.\<close>

definition emitted :: "state \<Rightarrow> state \<Rightarrow> event list" where
  "emitted s s' = drop (length (trace s)) (trace s')"

definition network_calls :: "state \<Rightarrow> state \<Rightarrow> event list" where
  "network_calls s s' = filter is_network (emitted s s')"

section \<open>The transaction list (\<open>TransactionList\<close>)\<close>

text \<open>
  \<open>type Transaction\<close>. The record is handed to the component by its caller. Its fields
  \<open>type\<close> and \<open>status\<close> are declared as unions of string literals, which nothing
  checks at run time, so both are strings here, and the functions that switch on them
  keep the fall-through of the source: \<open>getIcon\<close> has a default case returning null,
  \<open>getStatusColor\<close> has none and returns undefined.
\<close>

record Transaction =
  tx_id :: int
  tx_type :: string
  tx_name :: string
  tx_amount :: js_number
  wallet_type :: "string option"
  crypto_symbol :: "string option"
  target_currency :: "string option"
  tx_date :: string
  tx_status :: string


record TransactionListProps =
  transactions :: "Transaction list"
  showViewAll :: "bool option"

text \<open>
  The built-ins the component formats with: \<open>toUpperCase\<close>, \<open>new Date(s)\<close>
  (\<open>None\<close> when \<open>getTime()\<close> is \<open>NaN\<close>), \<open>toLocaleDateString\<close> (which the
  source guards with a catch) and \<open>toLocaleString\<close> with two fraction digits.
\<close>

record locale_env =
  toUpperCase :: "string \<Rightarrow> string"
  parseDate :: "string \<Rightarrow> nat option"
  toLocaleDateString :: "nat \<Rightarrow> js_error + string"
  toLocaleString :: "js_number \<Rightarrow> string"

definition or_default :: "string \<Rightarrow> string \<Rightarrow> string" where
  "or_default v dflt = (if v = [] then dflt else v)"

definition getCurrency :: "locale_env \<Rightarrow> Transaction \<Rightarrow> string" where
  "getCurrency L t =
     (if tx_type t = ''convert'' then
        (case target_currency t of None \<Rightarrow> ''INR'' | Some c \<Rightarrow> or_default c ''INR'')
      else
        (case wallet_type t of
           None \<Rightarrow> ''UNKNOWN''
         | Some w \<Rightarrow> or_default (toUpperCase L w) ''UNKNOWN''))"

definition formatDate :: "locale_env \<Rightarrow> string \<Rightarrow> string" where
  "formatDate L dateStr =
     (case parseDate L dateStr of
        None \<Rightarrow> ''Invalid Date''
      | Some d \<Rightarrow>
          (case toLocaleDateString L d of
             Inr txt \<Rightarrow> txt
           | Inl _ \<Rightarrow> ''Invalid Date''))"

datatype icon = ArrowUpRight | ArrowDownLeft | RefreshCw

definition getIcon :: "string \<Rightarrow> icon option" where
  "getIcon ty =
     (if ty = ''sent'' then Some ArrowUpRight
      else if ty = ''received'' then Some ArrowDownLeft
      else if ty = ''convert'' then Some RefreshCw
      else None)"

definition getStatusColor :: "string \<Rightarrow> string option" where
  "getStatusColor st =
     (if st = ''completed'' then Some ''bg-green-900/30 text-green-500 border-0''
      else if st = ''pending'' then Some ''bg-yellow-600/20 text-yellow-500 border-0''
      else if st = ''failed'' then Some ''bg-red-900/20 text-red-500 border-0''
      else None)"

fun js_abs :: "js_number \<Rightarrow> js_number" where
  "js_abs NaN = NaN"
| "js_abs PosInfinity = PosInfinity"
| "js_abs NegInfinity = PosInfinity"
| "js_abs (Num q) = Num \<bar>q\<bar>"

text \<open>
  One rendered row: the list key and what the row shows. \<open>row_icon\<close> is \<open>None\<close>
  where the source shows the question mark; in the class of the badge an undefined
  colour prints as \<open>undefined\<close>, as a template string prints it.
\<close>

record row =
  row_key :: int
  row_index :: nat
  row_icon :: "icon option"
  row_title :: string
  row_date :: string
  row_amount_class :: string
  row_amount :: string
  row_badge_class :: string
  row_badge :: string

definition render_row :: "locale_env \<Rightarrow> nat \<Rightarrow> Transaction \<Rightarrow> row" where
  "render_row L index t =
     \<lparr> row_key = tx_id t,
       row_index = index,
       row_icon = getIcon (tx_type t),
       row_title = or_default (tx_name t) ''Unknown'',
       row_date = formatDate L (tx_date t),
       row_amount_class =
         (if tx_type t = ''sent'' then ''text-red-500''
          else if tx_type t = ''received'' \<or> tx_type t = ''convert'' then ''text-green-500''
          else ''text-gray-400''),
       row_amount =
         (if tx_type t = ''sent'' then ''-'' else if tx_type t = ''received'' then ''+'' else [])
           @ getCurrency L t @ toLocaleString L (js_abs (tx_amount t)),
       row_badge_class =
         ''text-[10px] mt-1 ''
           @ (case getStatusColor (tx_status t) of Some cls \<Rightarrow> cls | None \<Rightarrow> ''undefined''),
       row_badge = toUpperCase L (take 1 (tx_status t)) @ drop 1 (tx_status t) \<rparr>"

datatype list_body = NoTransactions string | Rows "row list"

record rendered_list =
  view_all :: bool
  body :: list_body

text \<open>What evaluating an identifier that is neither declared nor imported throws.\<close>

definition ReferenceError :: "string \<Rightarrow> js_error" where
  "ReferenceError name = JsError (Some (name @ '' is not defined'')) None"

text \<open>
  \<open>TransactionList\<close>. The header comes first. Its \<open>View All\<close> button, built when
  \<open>showViewAll\<close> is true or omitted (the default is true), contains the element
  \<open>ArrowRight\<close>; the file imports \<open>ArrowUpRight\<close>, \<open>ArrowDownLeft\<close> and
  \<open>RefreshCw\<close> only, so evaluating that element throws and nothing is rendered. With
  \<open>showViewAll\<close> false the button is skipped and the list follows.
\<close>

definition TransactionList ::
  "locale_env \<Rightarrow> TransactionListProps \<Rightarrow> js_error + rendered_list" where
  "TransactionList L props =
     (let show_all = (case showViewAll props of None \<Rightarrow> True | Some b \<Rightarrow> b)
      in if show_all then Inl (ReferenceError ''ArrowRight'')
         else
           Inr \<lparr> view_all = show_all,
                  body =
                    (if length (transactions props) = 0 then NoTransactions ''No transactions yet''
                     else Rows (map (\<lambda>(index, transaction). render_row L index transaction)
                                  (enumerate 0 (transactions props)))) \<rparr>)"

section \<open>Example inputs\<close>

text \<open>
  A key pair, an account with 100 XLM, and an environment in which the secret \<open>S1\<close>
  is the only valid one, account \<open>G1\<close> is the only one the server knows, every
  validation passes, and every submission is accepted with hash \<open>h1\<close>.
\<close>

definition kp1 :: Keypair where
  "kp1 = MkKeypair ''S1'' ''G1''"

definition acct1 :: account where
  "acct1 =
     \<lparr> account_id = ''G1'', sequence = 7,
       balances = [\<lparr> asset_type = ''native'', asset_code = None, line_balance = ''100.0'' \<rparr>] \<rparr>"

definition parse1 :: "string \<Rightarrow> js_number" where
  "parse1 x = (if x = ''5'' then Num 5 else if x = ''100.0'' then Num 100 else NaN)"

definition env1 :: env where
  "env1 =
     \<lparr> networks_TESTNET = ''Test SDF Network ; September 2015'',
       networks_PUBLIC = ''Public Global Stellar Network ; September 2015'',
       fromSecret = (\<lambda>x. if x = ''S1'' then Inr kp1 else Inl (Error ''invalid encoded string'')),
       asset_error = (\<lambda>c i. None),
       payment_error = (\<lambda>p. None),
       memo_error = (\<lambda>m. None),
       build_error = (\<lambda>b. None),
       loadAccount = (\<lambda>srv h a. if a = ''G1'' then Inr acct1
                                  else Inl (JsError (Some ''Not Found'') (Some ''404''))),
       submitTransaction = (\<lambda>srv h t. Inr \<lparr> result_hash = ''h1'' \<rparr>),
       parseFloat = parse1,
       Number = parse1,
       toFixed = (\<lambda>n d. ''100.00''),
       now = (\<lambda>h. 0) \<rparr>"

text \<open>The same environment with a server that rejects every submission.\<close>

definition env2 :: env where
  "env2 = env1\<lparr>submitTransaction := (\<lambda>srv h t. Inl (JsError (Some ''tx_failed'') None))\<rparr>"

definition state0 :: state where
  "state0 = \<lparr> trader = new_StellarTrader env1 Testnet, trace = [] \<rparr>"

definition state1 :: state where
  "state1 = snd (connect env1 ''S1'' state0)"

definition app1 :: app where
  "app1 =
     \<lparr> core = state1,
       ui_state = initial_ui\<lparr>amount := ''5'', destination := ''G2'', showPaymentDialog := True\<rparr>,
       stellar_secret_key = Some ''S1'' \<rparr>"

definition tx1 :: transaction where
  "tx1 =
     \<lparr> contents =
         \<lparr> b_source = acct1, b_fee = ''100'',
           b_networkPassphrase = ''Test SDF Network ; September 2015'',
           b_operations = [\<lparr> op_destination = ''G2'', op_asset = Native,
                              op_amount = ''5'', op_source = ''G1'' \<rparr>],
           b_memo = None, b_timeout = Some 30 \<rparr>,
       signatures = [kp1] \<rparr>"

definition locale1 :: locale_env where
  "locale1 =
     \<lparr> toUpperCase = map (\<lambda>c. if c = CHR ''b'' then CHR ''B'' else if c = CHR ''t'' then CHR ''T''
                                else if c = CHR ''c'' then CHR ''C'' else if c = CHR ''p'' then CHR ''P''
                                else if c = CHR ''f'' then CHR ''F'' else if c = CHR ''r'' then CHR ''R''
                                else c),
       parseDate = (\<lambda>d. if d = ''2024-01-02'' then Some 1 else None),
       toLocaleDateString = (\<lambda>n. Inr ''Jan 2, 2024''),
       toLocaleString = (\<lambda>n. ''1.50'') \<rparr>"

definition txn1 :: Transaction where
  "txn1 =
     \<lparr> tx_id = 1, tx_type = ''sent'', tx_name = ''Alice'', tx_amount = Num (-3/2),
       wallet_type = Some ''btc'', crypto_symbol = None, target_currency = None,
       tx_date = ''2024-01-02'', tx_status = ''completed'' \<rparr>"

definition txn2 :: Transaction where
  "txn2 =
     \<lparr> tx_id = 2, tx_type = ''convert'', tx_name = [], tx_amount = Num (3/2),
       wallet_type = None, crypto_symbol = Some ''BTC'', target_currency = None,
       tx_date = ''soon'', tx_status = ''pending'' \<rparr>"


text \<open>
  A second key pair, an environment in which both secrets are valid, and the
  application as it is before the component mounts, with and without a secret key in
  local storage.
\<close>

definition kp2 :: Keypair where
  "kp2 = MkKeypair ''S2'' ''G2''"

definition env5 :: env where
  "env5 = env1\<lparr>fromSecret := (\<lambda>x. if x = ''S1'' then Inr kp1 else if x = ''S2'' then Inr kp2
                                     else Inl (Error ''invalid encoded string''))\<rparr>"

definition app5 :: app where
  "app5 = \<lparr> core = state0, ui_state = initial_ui, stellar_secret_key = Some ''S1'' \<rparr>"

definition app6 :: app where
  "app6 = \<lparr> core = state0, ui_state = initial_ui, stellar_secret_key = None \<rparr>"

text \<open>
  Two more servers: one that is unreachable (it throws a value without a message), and
  one that answers every account id with the same account. A form left empty.
\<close>

definition env3 :: env where
  "env3 = env1\<lparr>loadAccount := (\<lambda>srv h a. Inl (JsError None None))\<rparr>"

definition env4 :: env where
  "env4 = env1\<lparr>loadAccount := (\<lambda>srv h a. Inr acct1)\<rparr>"

definition app0 :: app where
  "app0 = app1\<lparr>ui_state := (ui_state app1)\<lparr>amount := []\<rparr>\<rparr>"

section \<open>What a call of \<open>executePayment\<close> leaves behind\<close>

lemma emitted_append: "trace s' = trace s @ evs \<Longrightarrow> emitted s s' = evs"
  by (simp add: emitted_def)

lemma payment_try_frame:
  "\<exists>evs. snd (payment_try E kp d a c m s) = s\<lparr>trace := trace s @ evs\<rparr>
         \<and> length (filter is_submit evs) \<le> 1"
  by (auto simp: payment_try_def emit_def Let_def split: sum.splits)

lemma executePayment_frame:
  "\<exists>evs. snd (executePayment E d a c m s) = s\<lparr>trace := trace s @ evs\<rparr>
         \<and> length (filter is_submit evs) \<le> 1"
proof (cases "keypair (trader s)")
  case None
  then show ?thesis by (intro exI[of _ "[]"]) (simp add: executePayment_def)
next
  case (Some kp)
  obtain evs where e: "snd (payment_try E kp d a (default_arg c ''XLM'') (default_arg m []) s)
        = s\<lparr>trace := trace s @ evs\<rparr>" "length (filter is_submit evs) \<le> 1"
    using payment_try_frame by blast
  obtain r s1 where p: "payment_try E kp d a (default_arg c ''XLM'') (default_arg m []) s = (r, s1)"
    by (cases "payment_try E kp d a (default_arg c ''XLM'') (default_arg m []) s")
  with e have s1: "s1 = s\<lparr>trace := trace s @ evs\<rparr>" by simp
  show ?thesis
  proof (cases r)
    case (Inr x)
    with Some p s1 e show ?thesis by (auto simp: executePayment_def)
  next
    case (Inl x)
    show ?thesis
    proof (cases "response_data x")
      case None
      with Some p s1 e Inl show ?thesis
        by (intro exI[of _ "evs @ [ConsoleError ''Transaction failed:'' (ErrArg x)]"])
           (simp add: executePayment_def emit_def)
    next
      case (Some dd)
      with \<open>keypair (trader s) = Some kp\<close> p s1 e Inl show ?thesis
        by (intro exI[of _ "evs @ [ConsoleError ''Transaction failed:'' (ErrArg x), ConsoleError ''Error details:'' (DataArg dd)]"])
           (simp add: executePayment_def emit_def)
    qed
  qed
qed

lemma getAccountBalance_frame:
  "\<exists>evs. snd (getAccountBalance E pk s) = s\<lparr>trace := trace s @ evs\<rparr>
         \<and> filter is_submit evs = []"
  by (auto simp: getAccountBalance_def emit_def Let_def split: sum.splits)


lemma executePayment_caught:
  assumes "keypair (trader s) = Some kp"
    and "payment_try E kp d a (default_arg c ''XLM'') (default_arg m []) s = (Inl e, s1)"
  shows "executePayment E d a c m s =
           (Inl (Error (''Payment failed: '' @ message_or e ''Unknown error'')),
            s1\<lparr>trace := trace s1 @ ConsoleError ''Transaction failed:'' (ErrArg e)
                    # (case response_data e of
                         Some x \<Rightarrow> [ConsoleError ''Error details:'' (DataArg x)]
                       | None \<Rightarrow> [])\<rparr>)"
  using assms by (simp add: executePayment_def emit_def split: option.splits)

lemma payment_try_load_fails:
  assumes "loadAccount E (server (trader s)) (trace s) (publicKey kp) = Inl e"
  shows "payment_try E kp d a c m s =
           (Inl e, s\<lparr>trace := trace s @ [LoadAccount (server (trader s)) (publicKey kp)]\<rparr>)"
  using assms by (simp add: payment_try_def emit_def Let_def)

lemma payment_try_build_fails:
  assumes "loadAccount E (server (trader s)) (trace s) (publicKey kp) = Inr acc"
    and "build_payment E (trader s) kp acc d a c m = Inl e"
  shows "payment_try E kp d a c m s =
           (Inl e, s\<lparr>trace := trace s @ [LoadAccount (server (trader s)) (publicKey kp)]\<rparr>)"
  using assms by (simp add: payment_try_def emit_def Let_def)

lemma payment_try_submit_fails:
  assumes "loadAccount E (server (trader s)) (trace s) (publicKey kp) = Inr acc"
    and "build_payment E (trader s) kp acc d a c m = Inr tx"
    and "submitTransaction E (server (trader s))
           (trace s @ [LoadAccount (server (trader s)) (publicKey kp)]) tx = Inl e"
  shows "payment_try E kp d a c m s =
           (Inl e, s\<lparr>trace := trace s @ [LoadAccount (server (trader s)) (publicKey kp),
                                          SubmitTransaction (server (trader s)) tx]\<rparr>)"
  using assms by (simp add: payment_try_def emit_def Let_def)

lemma payment_try_submitted:
  assumes "loadAccount E (server (trader s)) (trace s) (publicKey kp) = Inr acc"
    and "build_payment E (trader s) kp acc d a c m = Inr tx"
    and "submitTransaction E (server (trader s))
           (trace s @ [LoadAccount (server (trader s)) (publicKey kp)]) tx = Inr res"
  shows "payment_try E kp d a c m s =
           (Inr \<lparr> tr_id = result_hash res, tr_fromAsset = c, tr_toAsset = ''XLM'',
                  tr_amount = parseFloat E a, tr_rate = Num 1,
                  tr_timestamp = now E (trace s @ [LoadAccount (server (trader s)) (publicKey kp),
                                                    SubmitTransaction (server (trader s)) tx]),
                  tr_hash = result_hash res, tr_status = Completed \<rparr>,
            s\<lparr>trace := trace s @ [LoadAccount (server (trader s)) (publicKey kp),
                                   SubmitTransaction (server (trader s)) tx]\<rparr>)"
  using assms by (simp add: payment_try_def emit_def Let_def)

lemma payment_try_returned:
  assumes "payment_try E kp d a c m s = (Inr r, s')"
  shows "\<exists>acc tx res.
           loadAccount E (server (trader s)) (trace s) (publicKey kp) = Inr acc
         \<and> build_payment E (trader s) kp acc d a c m = Inr tx
         \<and> submitTransaction E (server (trader s))
              (trace s @ [LoadAccount (server (trader s)) (publicKey kp)]) tx = Inr res
         \<and> tr_id r = result_hash res \<and> tr_hash r = result_hash res
         \<and> tr_status r = Completed \<and> tr_rate r = Num 1 \<and> tr_toAsset r = ''XLM''
         \<and> tr_fromAsset r = c \<and> tr_amount r = parseFloat E a"
  using assms by (auto simp: payment_try_def emit_def Let_def split: sum.splits)

lemma executePayment_returned:
  assumes "executePayment E d a c m s = (Inr r, s')"
  shows "\<exists>kp. keypair (trader s) = Some kp
         \<and> payment_try E kp d a (default_arg c ''XLM'') (default_arg m []) s = (Inr r, s')"
  using assms by (auto simp: executePayment_def Let_def split: option.splits sum.splits prod.splits)

lemma build_payment_built:
  assumes "build_payment E t kp acc d a c m = Inr tx"
  shows "b_timeout (contents tx) = Some 30 \<and> signatures tx = [kp] \<and> b_source (contents tx) = acc
       \<and> b_fee (contents tx) = ''100'' \<and> b_networkPassphrase (contents tx) = networkPassphrase t
       \<and> b_operations (contents tx) =
            [\<lparr> op_destination = d,
                op_asset = (if c = ''XLM'' then Native else Asset c (publicKey kp)),
                op_amount = a, op_source = publicKey kp \<rparr>]
       \<and> b_memo (contents tx) = (if m = [] then None else Some m)"
  using assms by (auto simp: build_payment_def throw_if_def Let_def split: option.splits if_splits)

section \<open>The connection guard\<close>

text \<open>
  C9: \<open>executePayment\<close> throws the error \<open>Not connected\<close> exactly when the trader is
  not ready, which is exactly when its key pair is null; when the trader is ready the
  first thing the call does is the network call that loads the account of the key
  pair's public key.
\<close>

theorem executePayment_not_connected_iff:
  "((fst (executePayment E d a c m s) = Inl (Error not_connected)) = (\<not> isReady s))
   \<and> ((keypair (trader s) = None) = (\<not> isReady s))
   \<and> (isReady s \<longrightarrow>
        (\<exists>kp. keypair (trader s) = Some kp
           \<and> take 1 (emitted s (snd (executePayment E d a c m s)))
               = [LoadAccount (server (trader s)) (publicKey kp)]))"
  by (auto simp: executePayment_def payment_try_def emit_def emitted_def isReady_def Error_def
        not_connected_def Let_def split: option.splits sum.splits prod.splits)

theorem executePayment_not_connected_iff_witness:
  "isReady state1 \<and> fst (executePayment env1 ''G2'' ''5'' None None state1) \<noteq> Inl (Error not_connected)
   \<and> take 1 (emitted state1 (snd (executePayment env1 ''G2'' ''5'' None None state1)))
       = [LoadAccount ''https://horizon-testnet.stellar.org'' ''G1'']
   \<and> \<not> isReady state0
   \<and> fst (executePayment env1 ''G2'' ''5'' None None state0) = Inl (Error not_connected)"
  using executePayment_not_connected_iff [of env1 "''G2''" "''5''" None None state1]
    executePayment_not_connected_iff [of env1 "''G2''" "''5''" None None state0]
  by (simp add: state1_def state0_def connect_def env1_def new_StellarTrader_def isReady_def kp1_def)

section \<open>Connecting\<close>

text \<open>
  C10: \<open>connect\<close> never throws. With a secret key the library accepts, it returns true,
  stores the derived key pair (changing nothing else), and the trader is ready; with one
  the library rejects, it returns false and leaves the trader, so also a key pair stored
  before, as it was.
\<close>

theorem connect_never_throws:
  "(\<exists>b. fst (connect E k s) = Inr b)
   \<and> (\<forall>kp. fromSecret E k = Inr kp \<longrightarrow>
         fst (connect E k s) = Inr True
       \<and> snd (connect E k s) = s\<lparr>trader := (trader s)\<lparr>keypair := Some kp\<rparr>\<rparr>
       \<and> isReady (snd (connect E k s)))
   \<and> (\<forall>e. fromSecret E k = Inl e \<longrightarrow>
         fst (connect E k s) = Inr False
       \<and> trader (snd (connect E k s)) = trader s)"
  by (auto simp: connect_def isReady_def emit_def split: sum.splits)

theorem connect_never_throws_witness:
  "fromSecret env1 ''S1'' = Inr kp1
   \<and> connect env1 ''S1'' state0 = (Inr True, state0\<lparr>trader := (trader state0)\<lparr>keypair := Some kp1\<rparr>\<rparr>)
   \<and> fromSecret env1 ''bad'' = Inl (Error ''invalid encoded string'')
   \<and> fst (connect env1 ''bad'' state1) = Inr False
   \<and> keypair (trader (snd (connect env1 ''bad'' state1))) = Some kp1"
proof -
  have v: "fromSecret env1 ''S1'' = Inr kp1" by (simp add: env1_def)
  have i: "fromSecret env1 ''bad'' = Inl (Error ''invalid encoded string'')" by (simp add: env1_def)
  have k: "keypair (trader state1) = Some kp1"
    by (simp add: state1_def connect_def v)
  from connect_never_throws [of env1 "''S1''" state0] v
  have a: "fst (connect env1 ''S1'' state0) = Inr True"
    "snd (connect env1 ''S1'' state0) = state0\<lparr>trader := (trader state0)\<lparr>keypair := Some kp1\<rparr>\<rparr>"
    by blast+
  from connect_never_throws [of env1 "''bad''" state1] i
  have b: "fst (connect env1 ''bad'' state1) = Inr False"
    "trader (snd (connect env1 ''bad'' state1)) = trader state1"
    by blast+
  from a have "connect env1 ''S1'' state0 = (Inr True, state0\<lparr>trader := (trader state0)\<lparr>keypair := Some kp1\<rparr>\<rparr>)"
    by (simp add: prod_eq_iff)
  with v i b k show ?thesis by simp
qed

section \<open>The result of a payment\<close>

text \<open>
  C8: every \<open>TradeResult\<close> that \<open>executePayment\<close> returns has the status
  \<open>completed\<close>, an id equal to its hash, both the hash of the answer of the
  submission, rate 1, target asset \<open>XLM\<close>, and as amount the numeric parse of the
  amount argument. When the server rejects the submission the call throws; it returns no
  record, so none with the status \<open>failed\<close>.
\<close>

theorem executePayment_result:
  "(\<forall>r s'. executePayment E d a c m s = (Inr r, s') \<longrightarrow>
       tr_status r = Completed \<and> tr_id r = tr_hash r \<and> tr_rate r = Num 1
     \<and> tr_toAsset r = ''XLM'' \<and> tr_amount r = parseFloat E a
     \<and> (\<exists>kp acc tx res.
           keypair (trader s) = Some kp
         \<and> loadAccount E (server (trader s)) (trace s) (publicKey kp) = Inr acc
         \<and> build_payment E (trader s) kp acc d a (default_arg c ''XLM'') (default_arg m []) = Inr tx
         \<and> submitTransaction E (server (trader s))
              (trace s @ [LoadAccount (server (trader s)) (publicKey kp)]) tx = Inr res
         \<and> tr_hash r = result_hash res))
   \<and> (\<forall>kp acc tx e.
         keypair (trader s) = Some kp
       \<and> loadAccount E (server (trader s)) (trace s) (publicKey kp) = Inr acc
       \<and> build_payment E (trader s) kp acc d a (default_arg c ''XLM'') (default_arg m []) = Inr tx
       \<and> submitTransaction E (server (trader s))
            (trace s @ [LoadAccount (server (trader s)) (publicKey kp)]) tx = Inl e
       \<longrightarrow> fst (executePayment E d a c m s)
             = Inl (Error (''Payment failed: '' @ message_or e ''Unknown error'')))"
proof (intro conjI allI impI)
  fix r s'
  assume ex: "executePayment E d a c m s = (Inr r, s')"
  then obtain kp where kp: "keypair (trader s) = Some kp"
    and pt: "payment_try E kp d a (default_arg c ''XLM'') (default_arg m []) s = (Inr r, s')"
    using executePayment_returned by blast
  from payment_try_returned [OF pt] obtain acc tx res where
    f: "loadAccount E (server (trader s)) (trace s) (publicKey kp) = Inr acc"
       "build_payment E (trader s) kp acc d a (default_arg c ''XLM'') (default_arg m []) = Inr tx"
       "submitTransaction E (server (trader s))
              (trace s @ [LoadAccount (server (trader s)) (publicKey kp)]) tx = Inr res"
       "tr_id r = result_hash res" "tr_hash r = result_hash res"
       "tr_status r = Completed" "tr_rate r = Num 1" "tr_toAsset r = ''XLM''"
       "tr_amount r = parseFloat E a"
    by blast
  from f show "tr_status r = Completed" by simp
  from f show "tr_id r = tr_hash r" by simp
  from f show "tr_rate r = Num 1" by simp
  from f show "tr_toAsset r = ''XLM''" by simp
  from f show "tr_amount r = parseFloat E a" by simp
  from kp f show "\<exists>kp acc tx res.
           keypair (trader s) = Some kp
         \<and> loadAccount E (server (trader s)) (trace s) (publicKey kp) = Inr acc
         \<and> build_payment E (trader s) kp acc d a (default_arg c ''XLM'') (default_arg m []) = Inr tx
         \<and> submitTransaction E (server (trader s))
              (trace s @ [LoadAccount (server (trader s)) (publicKey kp)]) tx = Inr res
         \<and> tr_hash r = result_hash res"
    by blast
next
  fix kp acc tx e
  assume h: "keypair (trader s) = Some kp
       \<and> loadAccount E (server (trader s)) (trace s) (publicKey kp) = Inr acc
       \<and> build_payment E (trader s) kp acc d a (default_arg c ''XLM'') (default_arg m []) = Inr tx
       \<and> submitTransaction E (server (trader s))
            (trace s @ [LoadAccount (server (trader s)) (publicKey kp)]) tx = Inl e"
  then have "payment_try E kp d a (default_arg c ''XLM'') (default_arg m []) s =
           (Inl e, s\<lparr>trace := trace s @ [LoadAccount (server (trader s)) (publicKey kp),
                                          SubmitTransaction (server (trader s)) tx]\<rparr>)"
    using payment_try_submit_fails by blast
  with h show "fst (executePayment E d a c m s)
             = Inl (Error (''Payment failed: '' @ message_or e ''Unknown error''))"
    using executePayment_caught by (metis fst_conv)
qed

text \<open>The example run: a connected trader pays 5 XLM to \<open>G2\<close>.\<close>

lemma state1_eq:
  "state1 = \<lparr> trader = \<lparr> server = ''https://horizon-testnet.stellar.org'', keypair = Some kp1,
                          networkPassphrase = ''Test SDF Network ; September 2015'' \<rparr>,
              trace = [] \<rparr>"
  by (simp add: state1_def state0_def connect_def env1_def new_StellarTrader_def)

lemma build1:
  "build_payment env1 (trader state1) kp1 acct1 ''G2'' ''5'' ''XLM'' [] = Inr tx1"
  by (simp add: build_payment_def throw_if_def env1_def tx1_def state1_eq kp1_def Let_def)

lemma build2:
  "build_payment env2 (trader state1) kp1 acct1 ''G2'' ''5'' ''XLM'' [] = Inr tx1"
  by (simp add: build_payment_def throw_if_def env1_def env2_def tx1_def state1_eq kp1_def Let_def)

lemma run1:
  "executePayment env1 ''G2'' ''5'' None None state1 =
     (Inr \<lparr> tr_id = ''h1'', tr_fromAsset = ''XLM'', tr_toAsset = ''XLM'', tr_amount = Num 5,
            tr_rate = Num 1, tr_timestamp = 0, tr_hash = ''h1'', tr_status = Completed \<rparr>,
      state1\<lparr>trace := [LoadAccount ''https://horizon-testnet.stellar.org'' ''G1'',
                        SubmitTransaction ''https://horizon-testnet.stellar.org'' tx1]\<rparr>)"
proof -
  have k: "keypair (trader state1) = Some kp1" by (simp add: state1_eq)
  have l: "loadAccount env1 (server (trader state1)) (trace state1) (publicKey kp1) = Inr acct1"
    by (simp add: env1_def kp1_def)
  have u: "submitTransaction env1 (server (trader state1))
           (trace state1 @ [LoadAccount (server (trader state1)) (publicKey kp1)]) tx1
             = Inr \<lparr> result_hash = ''h1'' \<rparr>"
    by (simp add: env1_def)
  have "payment_try env1 kp1 ''G2'' ''5'' ''XLM'' [] state1 =
     (Inr \<lparr> tr_id = ''h1'', tr_fromAsset = ''XLM'', tr_toAsset = ''XLM'', tr_amount = Num 5,
            tr_rate = Num 1, tr_timestamp = 0, tr_hash = ''h1'', tr_status = Completed \<rparr>,
      state1\<lparr>trace := [LoadAccount ''https://horizon-testnet.stellar.org'' ''G1'',
                        SubmitTransaction ''https://horizon-testnet.stellar.org'' tx1]\<rparr>)"
    using payment_try_submitted [OF l build1 u]
    by (simp add: state1_eq kp1_def env1_def parse1_def)
  with k show ?thesis by (simp add: executePayment_def default_arg_def)
qed

theorem executePayment_result_witness:
  "executePayment env1 ''G2'' ''5'' None None state1 =
     (Inr \<lparr> tr_id = ''h1'', tr_fromAsset = ''XLM'', tr_toAsset = ''XLM'', tr_amount = Num 5,
            tr_rate = Num 1, tr_timestamp = 0, tr_hash = ''h1'', tr_status = Completed \<rparr>,
      state1\<lparr>trace := [LoadAccount ''https://horizon-testnet.stellar.org'' ''G1'',
                        SubmitTransaction ''https://horizon-testnet.stellar.org'' tx1]\<rparr>)
   \<and> tr_status (projr (fst (executePayment env1 ''G2'' ''5'' None None state1))) = Completed
   \<and> keypair (trader state1) = Some kp1
   \<and> loadAccount env2 (server (trader state1)) (trace state1) (publicKey kp1) = Inr acct1
   \<and> build_payment env2 (trader state1) kp1 acct1 ''G2'' ''5'' (default_arg None ''XLM'') (default_arg None []) = Inr tx1
   \<and> submitTransaction env2 (server (trader state1))
        (trace state1 @ [LoadAccount (server (trader state1)) (publicKey kp1)]) tx1
        = Inl (JsError (Some ''tx_failed'') None)
   \<and> fst (executePayment env2 ''G2'' ''5'' None None state1) = Inl (Error ''Payment failed: tx_failed'')"
proof -
  have k: "keypair (trader state1) = Some kp1" by (simp add: state1_eq)
  have l: "loadAccount env2 (server (trader state1)) (trace state1) (publicKey kp1) = Inr acct1"
    by (simp add: env1_def env2_def kp1_def)
  have b: "build_payment env2 (trader state1) kp1 acct1 ''G2'' ''5'' (default_arg None ''XLM'') (default_arg None []) = Inr tx1"
    using build2 by (simp add: default_arg_def)
  have u: "submitTransaction env2 (server (trader state1))
        (trace state1 @ [LoadAccount (server (trader state1)) (publicKey kp1)]) tx1
        = Inl (JsError (Some ''tx_failed'') None)"
    by (simp add: env2_def)
  from executePayment_result [of env1 "''G2''" "''5''" None None state1] run1
  have c: "tr_status (projr (fst (executePayment env1 ''G2'' ''5'' None None state1))) = Completed"
    by simp
  from executePayment_result [of env2 "''G2''" "''5''" None None state1] k l b u
  have "fst (executePayment env2 ''G2'' ''5'' None None state1)
          = Inl (Error (''Payment failed: '' @ message_or (JsError (Some ''tx_failed'') None) ''Unknown error''))"
    by blast
  then have f: "fst (executePayment env2 ''G2'' ''5'' None None state1) = Inl (Error ''Payment failed: tx_failed'')"
    by (simp add: message_or_def)
  from run1 c k l b u f show ?thesis by simp
qed

section \<open>Failures of the network calls\<close>

text \<open>
  C2: when the account load or the submission fails with an error, \<open>executePayment\<close>
  logs the error (and its response data when it has some) and throws
  \<open>Payment failed: \<close> followed by the error's message, or by \<open>Unknown error\<close> when it
  has none; \<open>getAccountBalance\<close> does the same with
  \<open>Failed to get account balance: \<close>. The trace shows what happened and nothing more:
  the failed call is the last network call, so nothing is retried and no other call
  replaces it.
\<close>

theorem network_failure_wrapped:
  "(\<forall>kp e.
       keypair (trader s) = Some kp
     \<and> loadAccount E (server (trader s)) (trace s) (publicKey kp) = Inl e
     \<longrightarrow> executePayment E d a c m s =
           (Inl (Error (''Payment failed: '' @ message_or e ''Unknown error'')),
            s\<lparr>trace := trace s @
                 [LoadAccount (server (trader s)) (publicKey kp),
                  ConsoleError ''Transaction failed:'' (ErrArg e)]
                 @ (case response_data e of
                      Some x \<Rightarrow> [ConsoleError ''Error details:'' (DataArg x)]
                    | None \<Rightarrow> [])\<rparr>))
   \<and> (\<forall>kp acc tx e.
         keypair (trader s) = Some kp
       \<and> loadAccount E (server (trader s)) (trace s) (publicKey kp) = Inr acc
       \<and> build_payment E (trader s) kp acc d a (default_arg c ''XLM'') (default_arg m []) = Inr tx
       \<and> submitTransaction E (server (trader s))
            (trace s @ [LoadAccount (server (trader s)) (publicKey kp)]) tx = Inl e
       \<longrightarrow> executePayment E d a c m s =
             (Inl (Error (''Payment failed: '' @ message_or e ''Unknown error'')),
              s\<lparr>trace := trace s @
                   [LoadAccount (server (trader s)) (publicKey kp),
                    SubmitTransaction (server (trader s)) tx,
                    ConsoleError ''Transaction failed:'' (ErrArg e)]
                   @ (case response_data e of
                        Some x \<Rightarrow> [ConsoleError ''Error details:'' (DataArg x)]
                      | None \<Rightarrow> [])\<rparr>))
   \<and> (\<forall>e.
         loadAccount E (server (trader s)) (trace s) pk = Inl e
       \<longrightarrow> getAccountBalance E pk s =
             (Inl (Error (''Failed to get account balance: '' @ message_or e ''Unknown error'')),
              s\<lparr>trace := trace s @
                   [LoadAccount (server (trader s)) pk,
                    ConsoleError ''Failed to get account balance:'' (ErrArg e)]\<rparr>))"
proof (intro conjI allI impI)
  fix kp e
  assume h: "keypair (trader s) = Some kp
     \<and> loadAccount E (server (trader s)) (trace s) (publicKey kp) = Inl e"
  then have "payment_try E kp d a (default_arg c ''XLM'') (default_arg m []) s =
           (Inl e, s\<lparr>trace := trace s @ [LoadAccount (server (trader s)) (publicKey kp)]\<rparr>)"
    using payment_try_load_fails by blast
  with h show "executePayment E d a c m s =
           (Inl (Error (''Payment failed: '' @ message_or e ''Unknown error'')),
            s\<lparr>trace := trace s @
                 [LoadAccount (server (trader s)) (publicKey kp),
                  ConsoleError ''Transaction failed:'' (ErrArg e)]
                 @ (case response_data e of
                      Some x \<Rightarrow> [ConsoleError ''Error details:'' (DataArg x)]
                    | None \<Rightarrow> [])\<rparr>)"
    by (simp add: executePayment_caught)
next
  fix kp acc tx e
  assume h: "keypair (trader s) = Some kp
       \<and> loadAccount E (server (trader s)) (trace s) (publicKey kp) = Inr acc
       \<and> build_payment E (trader s) kp acc d a (default_arg c ''XLM'') (default_arg m []) = Inr tx
       \<and> submitTransaction E (server (trader s))
            (trace s @ [LoadAccount (server (trader s)) (publicKey kp)]) tx = Inl e"
  then have "payment_try E kp d a (default_arg c ''XLM'') (default_arg m []) s =
           (Inl e, s\<lparr>trace := trace s @ [LoadAccount (server (trader s)) (publicKey kp),
                                          SubmitTransaction (server (trader s)) tx]\<rparr>)"
    using payment_try_submit_fails by blast
  with h show "executePayment E d a c m s =
             (Inl (Error (''Payment failed: '' @ message_or e ''Unknown error'')),
              s\<lparr>trace := trace s @
                   [LoadAccount (server (trader s)) (publicKey kp),
                    SubmitTransaction (server (trader s)) tx,
                    ConsoleError ''Transaction failed:'' (ErrArg e)]
                   @ (case response_data e of
                        Some x \<Rightarrow> [ConsoleError ''Error details:'' (DataArg x)]
                      | None \<Rightarrow> [])\<rparr>)"
    by (simp add: executePayment_caught)
next
  fix e
  assume "loadAccount E (server (trader s)) (trace s) pk = Inl e"
  then show "getAccountBalance E pk s =
             (Inl (Error (''Failed to get account balance: '' @ message_or e ''Unknown error'')),
              s\<lparr>trace := trace s @
                   [LoadAccount (server (trader s)) pk,
                    ConsoleError ''Failed to get account balance:'' (ErrArg e)]\<rparr>)"
    by (simp add: getAccountBalance_def emit_def Let_def)
qed

theorem network_failure_wrapped_witness:
  "keypair (trader state1) = Some kp1
   \<and> loadAccount env3 (server (trader state1)) (trace state1) (publicKey kp1) = Inl (JsError None None)
   \<and> executePayment env3 ''G2'' ''5'' None None state1 =
       (Inl (Error ''Payment failed: Unknown error''),
        state1\<lparr>trace := [LoadAccount ''https://horizon-testnet.stellar.org'' ''G1'',
                          ConsoleError ''Transaction failed:'' (ErrArg (JsError None None))]\<rparr>)
   \<and> loadAccount env2 (server (trader state1)) (trace state1) (publicKey kp1) = Inr acct1
   \<and> build_payment env2 (trader state1) kp1 acct1 ''G2'' ''5'' (default_arg None ''XLM'') (default_arg None []) = Inr tx1
   \<and> submitTransaction env2 (server (trader state1))
        (trace state1 @ [LoadAccount (server (trader state1)) (publicKey kp1)]) tx1
        = Inl (JsError (Some ''tx_failed'') None)
   \<and> executePayment env2 ''G2'' ''5'' None None state1 =
       (Inl (Error ''Payment failed: tx_failed''),
        state1\<lparr>trace := [LoadAccount ''https://horizon-testnet.stellar.org'' ''G1'',
                          SubmitTransaction ''https://horizon-testnet.stellar.org'' tx1,
                          ConsoleError ''Transaction failed:'' (ErrArg (JsError (Some ''tx_failed'') None))]\<rparr>)
   \<and> loadAccount env1 (server (trader state1)) (trace state1) ''S1'' = Inl (JsError (Some ''Not Found'') (Some ''404''))
   \<and> getAccountBalance env1 ''S1'' state1 =
       (Inl (Error ''Failed to get account balance: Not Found''),
        state1\<lparr>trace := [LoadAccount ''https://horizon-testnet.stellar.org'' ''S1'',
                          ConsoleError ''Failed to get account balance:''
                            (ErrArg (JsError (Some ''Not Found'') (Some ''404'')))]\<rparr>)"
proof -
  have k: "keypair (trader state1) = Some kp1" by (simp add: state1_eq)
  have l3: "loadAccount env3 (server (trader state1)) (trace state1) (publicKey kp1) = Inl (JsError None None)"
    by (simp add: env3_def)
  have l2: "loadAccount env2 (server (trader state1)) (trace state1) (publicKey kp1) = Inr acct1"
    by (simp add: env1_def env2_def kp1_def)
  have b: "build_payment env2 (trader state1) kp1 acct1 ''G2'' ''5'' (default_arg None ''XLM'') (default_arg None []) = Inr tx1"
    using build2 by (simp add: default_arg_def)
  have u: "submitTransaction env2 (server (trader state1))
        (trace state1 @ [LoadAccount (server (trader state1)) (publicKey kp1)]) tx1
        = Inl (JsError (Some ''tx_failed'') None)"
    by (simp add: env2_def)
  have l1: "loadAccount env1 (server (trader state1)) (trace state1) ''S1'' = Inl (JsError (Some ''Not Found'') (Some ''404''))"
    by (simp add: env1_def)
  from network_failure_wrapped [of state1 env3 "''G2''" "''5''" None None] k l3
  have r3: "executePayment env3 ''G2'' ''5'' None None state1 =
       (Inl (Error ''Payment failed: Unknown error''),
        state1\<lparr>trace := [LoadAccount ''https://horizon-testnet.stellar.org'' ''G1'',
                          ConsoleError ''Transaction failed:'' (ErrArg (JsError None None))]\<rparr>)"
    by (simp add: message_or_def state1_eq kp1_def)
  from network_failure_wrapped [of state1 env2 "''G2''" "''5''" None None] k l2 b u
  have r2: "executePayment env2 ''G2'' ''5'' None None state1 =
       (Inl (Error ''Payment failed: tx_failed''),
        state1\<lparr>trace := [LoadAccount ''https://horizon-testnet.stellar.org'' ''G1'',
                          SubmitTransaction ''https://horizon-testnet.stellar.org'' tx1,
                          ConsoleError ''Transaction failed:'' (ErrArg (JsError (Some ''tx_failed'') None))]\<rparr>)"
    by (simp add: message_or_def state1_eq kp1_def)
  from network_failure_wrapped [of state1 env1 _ _ _ _ "''S1''"] l1
  have r1: "getAccountBalance env1 ''S1'' state1 =
       (Inl (Error ''Failed to get account balance: Not Found''),
        state1\<lparr>trace := [LoadAccount ''https://horizon-testnet.stellar.org'' ''S1'',
                          ConsoleError ''Failed to get account balance:''
                            (ErrArg (JsError (Some ''Not Found'') (Some ''404'')))]\<rparr>)"
    by (simp add: message_or_def state1_eq)
  from k l3 r3 l2 b u r2 l1 r1 show ?thesis by simp
qed

section \<open>What the handlers of the payment form leave behind\<close>

lemma handler_catch_core:
  "core (handler_catch e ap) =
     (core ap)\<lparr>trace := trace (core ap) @
        [ConsoleError ''Payment failed:'' (ErrArg e),
         ToastError (''Payment failed: '' @ message_text e)]\<rparr>"
  by (simp add: handler_catch_def emit_app_def emit_def)

lemma reset_form_core: "core (reset_form ap) = core ap"
  by (simp add: reset_form_def)

lemma after_payment_frame:
  "\<exists>evs. core (after_payment E r ap) = (core ap)\<lparr>trace := trace (core ap) @ evs\<rparr>
         \<and> filter is_submit evs = []"
proof (cases "truthy (stellar_secret_key ap)")
  case False
  then show ?thesis
    by (intro exI[of _ "[ToastSuccess ''Payment executed successfully!'']"])
       (simp add: after_payment_def emit_app_def emit_def reset_form_core Let_def)
next
  case True
  let ?s3 = "emit (ToastSuccess ''Payment executed successfully!'') (core ap)"
  let ?g = "getAccountBalance E (the (stellar_secret_key ap)) ?s3"
  obtain evs where g: "snd ?g = ?s3\<lparr>trace := trace ?s3 @ evs\<rparr>" "filter is_submit evs = []"
    using getAccountBalance_frame by blast
  obtain r' s'' where p: "?g = (r', s'')" by (cases ?g)
  with g have s'': "s'' = ?s3\<lparr>trace := trace ?s3 @ evs\<rparr>" by simp
  show ?thesis
  proof (cases r')
    case (Inl e)
    with True p s'' g(2) show ?thesis
      by (intro exI[of _ "ToastSuccess ''Payment executed successfully!'' # evs @
            [ConsoleError ''Payment failed:'' (ErrArg e),
             ToastError (''Payment failed: '' @ message_text e)]"])
         (simp add: after_payment_def emit_app_def emit_def handler_catch_core Let_def)
  next
    case (Inr b)
    with True p s'' g(2) show ?thesis
      by (intro exI[of _ "ToastSuccess ''Payment executed successfully!'' # evs"])
         (simp add: after_payment_def emit_app_def emit_def reset_form_core Let_def)
  qed
qed

lemma handleExecutePayment_frame:
  "\<exists>evs. core (handleExecutePayment E ap) = (core ap)\<lparr>trace := trace (core ap) @ evs\<rparr>
         \<and> length (filter is_submit evs) \<le> 1"
proof (cases "form_incomplete E (ui_state ap)")
  case True
  then show ?thesis
    by (intro exI[of _ "[ToastError ''Please fill in all required fields'']"])
       (simp add: handleExecutePayment_def emit_app_def emit_def)
next
  case False
  let ?u = "ui_state ap"
  let ?x = "executePayment E (destination ?u) (amount ?u) (Some (fromCurrency ?u)) (Some (memo ?u)) (core ap)"
  obtain evs where x: "snd ?x = (core ap)\<lparr>trace := trace (core ap) @ evs\<rparr>"
      "length (filter is_submit evs) \<le> 1"
    using executePayment_frame by blast
  obtain r s' where p: "?x = (r, s')" by (cases ?x)
  with x have s': "s' = (core ap)\<lparr>trace := trace (core ap) @ evs\<rparr>" by simp
  show ?thesis
  proof (cases r)
    case (Inl e)
    with False p s' x(2) show ?thesis
      by (intro exI[of _ "evs @ [ConsoleError ''Payment failed:'' (ErrArg e),
             ToastError (''Payment failed: '' @ message_text e)]"])
         (simp add: handleExecutePayment_def handler_catch_core Let_def)
  next
    case (Inr res)
    let ?a1 = "ap\<lparr>ui_state := ?u\<lparr>isExecuting := True\<rparr>, core := s'\<rparr>"
    obtain evs2 where a: "core (after_payment E res ?a1) = (core ?a1)\<lparr>trace := trace (core ?a1) @ evs2\<rparr>"
       "filter is_submit evs2 = []"
      using after_payment_frame by blast
    with False p s' x(2) Inr show ?thesis
      by (intro exI[of _ "evs @ evs2"])
         (simp add: handleExecutePayment_def Let_def)
  qed
qed

section \<open>The trader's fields\<close>

lemma connectToStellar_trader:
  "trader (core (connectToStellar E ap)) =
     (if truthy (stellar_secret_key ap) then
        (case fromSecret E (the (stellar_secret_key ap)) of
           Inr kp \<Rightarrow> (trader (core ap))\<lparr>keypair := Some kp\<rparr>
         | Inl e \<Rightarrow> trader (core ap))
      else trader (core ap))"
  by (auto simp: connectToStellar_def connect_def getAccountBalance_def emit_app_def emit_def
        truthy_def Let_def split: option.splits sum.splits prod.splits)

lemma connectToStellar_storage:
  "stellar_secret_key (connectToStellar E ap) = stellar_secret_key ap"
  by (auto simp: connectToStellar_def connect_def getAccountBalance_def emit_app_def emit_def
        Let_def split: option.splits sum.splits prod.splits)

text \<open>
  C4, as the code has it: the key pair is the only field of the trader that any method
  writes, and \<open>connect\<close> is the only method that writes it: \<open>executePayment\<close> and
  \<open>getAccountBalance\<close> change nothing but the trace, whether they return or throw,
  \<open>connect\<close> leaves the server and the network passphrase as they were, and the
  handlers of the payment form leave the trader as it was. The key pair is not set only
  once: every call of \<open>connect\<close> with a secret key the library accepts replaces
  whatever key pair was stored, and the effect that runs when the component mounts
  makes such a call each time local storage holds a secret key (reading local storage,
  never writing it); a rejected key, or none in local storage, leaves the trader as it
  was.
\<close>

theorem keypair_written_by_connect:
  "trader (snd (executePayment E d a c m s)) = trader s
   \<and> trader (snd (getAccountBalance E pk s)) = trader s
   \<and> server (trader (snd (connect E k s))) = server (trader s)
   \<and> networkPassphrase (trader (snd (connect E k s))) = networkPassphrase (trader s)
   \<and> trader (core (handleExecutePayment E ap)) = trader (core ap)
   \<and> trader (core (handleOpenPaymentDialog ap)) = trader (core ap)
   \<and> (\<forall>kp. fromSecret E k = Inr kp \<longrightarrow>
          trader (snd (connect E k s)) = (trader s)\<lparr>keypair := Some kp\<rparr>)
   \<and> (\<forall>e. fromSecret E k = Inl e \<longrightarrow> trader (snd (connect E k s)) = trader s)
   \<and> (\<forall>kp. truthy (stellar_secret_key ap) \<and> fromSecret E (the (stellar_secret_key ap)) = Inr kp \<longrightarrow>
          trader (core (connectToStellar E ap)) = (trader (core ap))\<lparr>keypair := Some kp\<rparr>)
   \<and> (\<forall>e. truthy (stellar_secret_key ap) \<and> fromSecret E (the (stellar_secret_key ap)) = Inl e \<longrightarrow>
          trader (core (connectToStellar E ap)) = trader (core ap))
   \<and> (\<not> truthy (stellar_secret_key ap) \<longrightarrow>
          trader (core (connectToStellar E ap)) = trader (core ap))
   \<and> stellar_secret_key (connectToStellar E ap) = stellar_secret_key ap"
proof (intro conjI allI impI)
  obtain evs where "snd (executePayment E d a c m s) = s\<lparr>trace := trace s @ evs\<rparr>"
    using executePayment_frame by blast
  then show "trader (snd (executePayment E d a c m s)) = trader s" by simp
  obtain evs' where "snd (getAccountBalance E pk s) = s\<lparr>trace := trace s @ evs'\<rparr>"
    using getAccountBalance_frame by blast
  then show "trader (snd (getAccountBalance E pk s)) = trader s" by simp
  show "server (trader (snd (connect E k s))) = server (trader s)"
    by (simp add: connect_def emit_def split: sum.splits)
  show "networkPassphrase (trader (snd (connect E k s))) = networkPassphrase (trader s)"
    by (simp add: connect_def emit_def split: sum.splits)
  show "trader (core (handleOpenPaymentDialog ap)) = trader (core ap)"
    by (simp add: handleOpenPaymentDialog_def emit_app_def emit_def)
  obtain evs2 where "core (handleExecutePayment E ap) = (core ap)\<lparr>trace := trace (core ap) @ evs2\<rparr>"
    using handleExecutePayment_frame by blast
  then show "trader (core (handleExecutePayment E ap)) = trader (core ap)" by simp
  show "stellar_secret_key (connectToStellar E ap) = stellar_secret_key ap"
    by (rule connectToStellar_storage)
next
  fix kp assume "fromSecret E k = Inr kp"
  then show "trader (snd (connect E k s)) = (trader s)\<lparr>keypair := Some kp\<rparr>"
    by (simp add: connect_def)
next
  fix e assume "fromSecret E k = Inl e"
  then show "trader (snd (connect E k s)) = trader s"
    by (simp add: connect_def emit_def)
next
  fix kp
  assume "truthy (stellar_secret_key ap) \<and> fromSecret E (the (stellar_secret_key ap)) = Inr kp"
  then show "trader (core (connectToStellar E ap)) = (trader (core ap))\<lparr>keypair := Some kp\<rparr>"
    by (simp add: connectToStellar_trader)
next
  fix e
  assume "truthy (stellar_secret_key ap) \<and> fromSecret E (the (stellar_secret_key ap)) = Inl e"
  then show "trader (core (connectToStellar E ap)) = trader (core ap)"
    by (simp add: connectToStellar_trader)
next
  assume "\<not> truthy (stellar_secret_key ap)"
  then show "trader (core (connectToStellar E ap)) = trader (core ap)"
    by (simp add: connectToStellar_trader)
qed

lemma app5_facts:
  "stellar_secret_key app5 = Some ''S1''" "core app5 = state0" "truthy (stellar_secret_key app5)"
  "stellar_secret_key app6 = None" "core app6 = state0" "\<not> truthy (stellar_secret_key app6)"
  "keypair (trader state0) = None"
  by (simp_all add: app5_def app6_def truthy_def state0_def new_StellarTrader_def)

lemma env5_facts:
  "fromSecret env5 ''S1'' = Inr kp1" "fromSecret env5 ''S2'' = Inr kp2"
  "fromSecret env5 ''bad'' = Inl (Error ''invalid encoded string'')"
  by (simp_all add: env5_def)

theorem keypair_written_by_connect_witness:
  "fromSecret env5 ''S2'' = Inr kp2
   \<and> keypair (trader state1) = Some kp1
   \<and> keypair (trader (snd (connect env5 ''S2'' state1))) = Some kp2
   \<and> fromSecret env5 ''bad'' = Inl (Error ''invalid encoded string'')
   \<and> keypair (trader (snd (connect env5 ''bad'' state1))) = Some kp1
   \<and> truthy (stellar_secret_key app5) \<and> fromSecret env5 (the (stellar_secret_key app5)) = Inr kp1
   \<and> keypair (trader (core app5)) = None
   \<and> keypair (trader (core (connectToStellar env5 app5))) = Some kp1
   \<and> truthy (stellar_secret_key (app5\<lparr>stellar_secret_key := Some ''bad''\<rparr>))
   \<and> keypair (trader (core (connectToStellar env5 (app5\<lparr>stellar_secret_key := Some ''bad''\<rparr>)))) = None
   \<and> \<not> truthy (stellar_secret_key app6)
   \<and> keypair (trader (core (connectToStellar env5 app6))) = None"
proof -
  have k1: "keypair (trader state1) = Some kp1" by (simp add: state1_eq)
  have b: "truthy (stellar_secret_key (app5\<lparr>stellar_secret_key := Some ''bad''\<rparr>))"
    "the (stellar_secret_key (app5\<lparr>stellar_secret_key := Some ''bad''\<rparr>)) = ''bad''"
    "core (app5\<lparr>stellar_secret_key := Some ''bad''\<rparr>) = state0"
    by (simp_all add: truthy_def app5_facts)
  have s5: "the (stellar_secret_key app5) = ''S1''" by (simp add: app5_facts)
  from keypair_written_by_connect [of env5 _ _ _ _ state1 _ "''S2''"] env5_facts(2)
  have c2: "trader (snd (connect env5 ''S2'' state1)) = (trader state1)\<lparr>keypair := Some kp2\<rparr>"
    by blast
  from keypair_written_by_connect [of env5 _ _ _ _ state1 _ "''bad''"] env5_facts(3)
  have c3: "trader (snd (connect env5 ''bad'' state1)) = trader state1"
    by blast
  from keypair_written_by_connect [of env5 _ _ _ _ _ _ _ app5] app5_facts(3) env5_facts(1) s5
  have m1: "trader (core (connectToStellar env5 app5)) = (trader (core app5))\<lparr>keypair := Some kp1\<rparr>"
    by simp
  from keypair_written_by_connect [of env5 _ _ _ _ _ _ _ "app5\<lparr>stellar_secret_key := Some ''bad''\<rparr>"]
    b env5_facts(3)
  have m2: "trader (core (connectToStellar env5 (app5\<lparr>stellar_secret_key := Some ''bad''\<rparr>)))
              = trader (core (app5\<lparr>stellar_secret_key := Some ''bad''\<rparr>))"
    by simp
  from keypair_written_by_connect [of env5 _ _ _ _ _ _ _ app6] app5_facts(6)
  have m3: "trader (core (connectToStellar env5 app6)) = trader (core app6)"
    by blast
  from k1 c2 c3 m1 m2 m3 b env5_facts app5_facts s5 show ?thesis by simp
qed

theorem keypair_set_twice_counterexample:
  "keypair (trader (snd (connect env5 ''S1'' state0))) = Some kp1
   \<and> keypair (trader (snd (connect env5 ''S2'' (snd (connect env5 ''S1'' state0))))) = Some kp2
   \<and> kp1 \<noteq> kp2
   \<and> keypair (trader (core (connectToStellar env5 app5))) = Some kp1
   \<and> keypair (trader (core (connectToStellar env5
         ((connectToStellar env5 app5)\<lparr>stellar_secret_key := Some ''S2''\<rparr>)))) = Some kp2"
  by (simp add: connect_def env5_facts connectToStellar_trader connectToStellar_storage
        app5_facts truthy_def kp1_def kp2_def)

section \<open>One submission\<close>

text \<open>
  C5: a call of \<open>executePayment\<close> adds events to the trace and changes nothing else,
  and at most one of the events it adds is a submission, whether the call returns or
  throws; the same holds for a whole run of the form's handler. So a rejected
  submission is not sent again, and there is no place where the payment could wait for
  a later attempt.
\<close>

theorem submitted_at_most_once:
  "(\<exists>evs. snd (executePayment E d a c m s) = s\<lparr>trace := trace s @ evs\<rparr>
          \<and> length (filter is_submit evs) \<le> 1)
   \<and> (\<exists>evs. core (handleExecutePayment E ap) = (core ap)\<lparr>trace := trace (core ap) @ evs\<rparr>
          \<and> length (filter is_submit evs) \<le> 1)"
  using executePayment_frame handleExecutePayment_frame by blast

section \<open>Timeouts\<close>

text \<open>
  C3, as the code has it: the payment flow passes no timeout and no cancellation handle
  to its network calls, which receive the account id or the transaction and nothing
  else, but it does set one timeout value of its own: every transaction it submits
  carries the validity window 30 that \<open>setTimeout(30)\<close> gives it, whatever the inputs.
  A call of \<open>executePayment\<close> adds to the trace only loads of an account, submissions
  of a transaction with that timeout, and log lines.
\<close>

theorem submitted_timeout_30:
  "\<forall>ev \<in> set (emitted s (snd (executePayment E d a c m s))).
       (\<exists>acc. ev = LoadAccount (server (trader s)) acc)
     \<or> (\<exists>tx. ev = SubmitTransaction (server (trader s)) tx \<and> b_timeout (contents tx) = Some 30)
     \<or> (\<exists>l x. ev = ConsoleError l x)"
  by (auto simp: executePayment_def payment_try_def emit_def emitted_def Let_def
        dest: build_payment_built split: option.splits sum.splits prod.splits)

theorem submitted_timeout_30_witness:
  "SubmitTransaction ''https://horizon-testnet.stellar.org'' tx1
     \<in> set (emitted state1 (snd (executePayment env1 ''G2'' ''5'' None None state1)))
   \<and> b_timeout (contents tx1) = Some 30"
proof -
  have m: "SubmitTransaction ''https://horizon-testnet.stellar.org'' tx1
     \<in> set (emitted state1 (snd (executePayment env1 ''G2'' ''5'' None None state1)))"
  proof -
    have "trace state1 = []" by (simp add: state1_eq)
    then show ?thesis by (simp add: run1 emitted_def)
  qed
  from submitted_timeout_30 [of state1 env1 "''G2''" "''5''" None None] m
  have "(\<exists>acc. SubmitTransaction ''https://horizon-testnet.stellar.org'' tx1
                 = LoadAccount (server (trader state1)) acc)
     \<or> (\<exists>tx. SubmitTransaction ''https://horizon-testnet.stellar.org'' tx1
                 = SubmitTransaction (server (trader state1)) tx \<and> b_timeout (contents tx) = Some 30)
     \<or> (\<exists>l x. SubmitTransaction ''https://horizon-testnet.stellar.org'' tx1 = ConsoleError l x)"
    by blast
  then have "\<exists>tx. SubmitTransaction ''https://horizon-testnet.stellar.org'' tx1
                 = SubmitTransaction (server (trader state1)) tx \<and> b_timeout (contents tx) = Some 30"
    by simp
  then have "b_timeout (contents tx1) = Some 30" by auto
  with m show ?thesis by blast
qed

theorem timeout_set_by_code_counterexample:
  "SubmitTransaction ''https://horizon-testnet.stellar.org'' tx1
     \<in> set (trace (snd (executePayment env1 ''G2'' ''5'' None None state1)))
   \<and> b_timeout (contents tx1) = Some 30
   \<and> b_timeout (contents tx1) \<noteq> None"
  by (simp add: run1 tx1_def)

section \<open>The steps of the payment flow\<close>

lemma network_calls_append:
  "trace s' = trace s @ evs \<Longrightarrow> network_calls s s' = filter is_network evs"
  by (simp add: network_calls_def emitted_def)

lemma network_calls_details:
  "filter is_network
     (case response_data e of
        Some x \<Rightarrow> [ConsoleError ''Error details:'' (DataArg x)]
      | None \<Rightarrow> []) = []"
  by (simp split: option.splits)

lemma handler_thrown:
  assumes "\<not> form_incomplete E (ui_state ap)"
    and "executePayment E (destination (ui_state ap)) (amount (ui_state ap))
           (Some (fromCurrency (ui_state ap))) (Some (memo (ui_state ap))) (core ap) = (Inl e, s')"
  shows "trace (core (handleExecutePayment E ap)) =
           trace s' @ [ConsoleError ''Payment failed:'' (ErrArg e),
                       ToastError (''Payment failed: '' @ message_text e)]"
  using assms by (simp add: handleExecutePayment_def handler_catch_core Let_def)

lemma handler_returned:
  assumes "\<not> form_incomplete E (ui_state ap)"
    and "executePayment E (destination (ui_state ap)) (amount (ui_state ap))
           (Some (fromCurrency (ui_state ap))) (Some (memo (ui_state ap))) (core ap) = (Inr r, s')"
  shows "handleExecutePayment E ap =
           (let a2 = after_payment E r
                       (ap\<lparr>ui_state := (ui_state ap)\<lparr>isExecuting := True\<rparr>, core := s'\<rparr>)
            in a2\<lparr>ui_state := (ui_state a2)\<lparr>isExecuting := False\<rparr>\<rparr>)"
  using assms by (simp add: handleExecutePayment_def Let_def)

lemma after_payment_no_key:
  assumes "\<not> truthy (stellar_secret_key ap)"
  shows "trace (core (after_payment E r ap)) =
           trace (core ap) @ [ToastSuccess ''Payment executed successfully!'']"
  using assms by (simp add: after_payment_def emit_app_def emit_def reset_form_core Let_def)

lemma after_payment_key:
  assumes "truthy (stellar_secret_key ap)"
  shows "filter is_network (drop (length (trace (core ap))) (trace (core (after_payment E r ap))))
           = [LoadAccount (server (trader (core ap))) (the (stellar_secret_key ap))]
       \<and> (\<forall>acc. loadAccount E (server (trader (core ap)))
                  (trace (core ap) @ [ToastSuccess ''Payment executed successfully!''])
                  (the (stellar_secret_key ap)) = Inr acc \<longrightarrow>
             balance (ui_state (after_payment E r ap)) =
               Some \<lparr> xlm = balance_of (\<lambda>b. asset_type b = ''native'') (balances acc),
                      usd = balance_of (\<lambda>b. asset_code b = Some ''USD'') (balances acc) \<rparr>)"
  using assms
  by (auto simp: after_payment_def getAccountBalance_def emit_app_def emit_def reset_form_def
        handler_catch_def Let_def split: sum.splits)


lemma executePayment_thrown_calls:
  assumes "keypair (trader s) = Some kp"
    and "payment_try E kp d a (default_arg c ''XLM'') (default_arg m []) s
           = (Inl e, s\<lparr>trace := trace s @ evs\<rparr>)"
  shows "\<exists>e' evs'. executePayment E d a c m s = (Inl e', s\<lparr>trace := trace s @ evs @ evs'\<rparr>)
           \<and> filter is_network evs' = []"
proof -
  let ?evs' = "ConsoleError ''Transaction failed:'' (ErrArg e)
                 # (case response_data e of
                      Some x \<Rightarrow> [ConsoleError ''Error details:'' (DataArg x)]
                    | None \<Rightarrow> [])"
  have "executePayment E d a c m s =
          (Inl (Error (''Payment failed: '' @ message_or e ''Unknown error'')),
           s\<lparr>trace := trace s @ evs @ ?evs'\<rparr>)"
    using executePayment_caught [OF assms] by simp
  moreover have "filter is_network ?evs' = []"
    by (simp add: network_calls_details)
  ultimately show ?thesis by blast
qed

lemma handler_thrown_calls:
  assumes "\<not> form_incomplete E (ui_state ap)"
    and "keypair (trader (core ap)) = Some kp"
    and "payment_try E kp (destination (ui_state ap)) (amount (ui_state ap))
           (fromCurrency (ui_state ap)) (memo (ui_state ap)) (core ap)
           = (Inl e, (core ap)\<lparr>trace := trace (core ap) @ evs\<rparr>)"
  shows "network_calls (core ap) (core (handleExecutePayment E ap)) = filter is_network evs"
proof -
  from assms(3) have "payment_try E kp (destination (ui_state ap)) (amount (ui_state ap))
           (default_arg (Some (fromCurrency (ui_state ap))) ''XLM'')
           (default_arg (Some (memo (ui_state ap))) []) (core ap)
           = (Inl e, (core ap)\<lparr>trace := trace (core ap) @ evs\<rparr>)"
    by (simp add: default_arg_def)
  from executePayment_thrown_calls [OF assms(2) this]
  obtain e' evs' where x: "executePayment E (destination (ui_state ap)) (amount (ui_state ap))
           (Some (fromCurrency (ui_state ap))) (Some (memo (ui_state ap))) (core ap)
             = (Inl e', (core ap)\<lparr>trace := trace (core ap) @ evs @ evs'\<rparr>)"
    and n: "filter is_network evs' = []"
    by blast
  from handler_thrown [OF assms(1) x]
  have "trace (core (handleExecutePayment E ap)) =
          trace (core ap) @ (evs @ evs' @ [ConsoleError ''Payment failed:'' (ErrArg e'),
                       ToastError (''Payment failed: '' @ message_text e')])"
    by simp
  from network_calls_append [OF this] n show ?thesis by simp
qed

lemma handler_returned_calls:
  assumes "\<not> form_incomplete E (ui_state ap)"
    and "keypair (trader (core ap)) = Some kp"
    and "payment_try E kp (destination (ui_state ap)) (amount (ui_state ap))
           (fromCurrency (ui_state ap)) (memo (ui_state ap)) (core ap)
           = (Inr r, (core ap)\<lparr>trace := trace (core ap) @ evs\<rparr>)"
  shows "(\<not> truthy (stellar_secret_key ap) \<longrightarrow>
            network_calls (core ap) (core (handleExecutePayment E ap)) = filter is_network evs)
       \<and> (truthy (stellar_secret_key ap) \<longrightarrow>
            network_calls (core ap) (core (handleExecutePayment E ap))
              = filter is_network evs
                  @ [LoadAccount (server (trader (core ap))) (the (stellar_secret_key ap))]
          \<and> (\<forall>acc. loadAccount E (server (trader (core ap)))
                  (trace (core ap) @ evs @ [ToastSuccess ''Payment executed successfully!''])
                  (the (stellar_secret_key ap)) = Inr acc \<longrightarrow>
             balance (ui_state (handleExecutePayment E ap)) =
               Some \<lparr> xlm = balance_of (\<lambda>b. asset_type b = ''native'') (balances acc),
                      usd = balance_of (\<lambda>b. asset_code b = Some ''USD'') (balances acc) \<rparr>))"
proof -
  let ?s' = "(core ap)\<lparr>trace := trace (core ap) @ evs\<rparr>"
  let ?a1 = "ap\<lparr>ui_state := (ui_state ap)\<lparr>isExecuting := True\<rparr>, core := ?s'\<rparr>"
  let ?a2 = "after_payment E r ?a1"
  from assms(2,3) have x: "executePayment E (destination (ui_state ap)) (amount (ui_state ap))
           (Some (fromCurrency (ui_state ap))) (Some (memo (ui_state ap))) (core ap) = (Inr r, ?s')"
    by (simp add: executePayment_def default_arg_def)
  from handler_returned [OF assms(1) x]
  have h: "handleExecutePayment E ap = ?a2\<lparr>ui_state := (ui_state ?a2)\<lparr>isExecuting := False\<rparr>\<rparr>"
    by (simp add: Let_def)
  have c1: "core ?a1 = ?s'" and k1: "stellar_secret_key ?a1 = stellar_secret_key ap" by simp_all
  show ?thesis
  proof (intro conjI impI)
    assume nk: "\<not> truthy (stellar_secret_key ap)"
    then have "\<not> truthy (stellar_secret_key ?a1)" by simp
    from after_payment_no_key [OF this, of E r]
    have "trace (core (handleExecutePayment E ap)) =
            trace (core ap) @ (evs @ [ToastSuccess ''Payment executed successfully!''])"
      by (simp add: h)
    from network_calls_append [OF this]
    show "network_calls (core ap) (core (handleExecutePayment E ap)) = filter is_network evs"
      by simp
  next
    assume "truthy (stellar_secret_key ap)"
    then have t: "truthy (stellar_secret_key ?a1)" by simp
    note ap = after_payment_key [OF t, of E r]
    obtain evs2 where f: "core ?a2 = (core ?a1)\<lparr>trace := trace (core ?a1) @ evs2\<rparr>"
      using after_payment_frame by blast
    then have tr: "trace (core ?a2) = trace (core ap) @ (evs @ evs2)" by simp
    from ap f have "filter is_network evs2
        = [LoadAccount (server (trader (core ap))) (the (stellar_secret_key ap))]"
      by simp
    with network_calls_append [of "core (handleExecutePayment E ap)" "core ap" "evs @ evs2"] tr
    show "network_calls (core ap) (core (handleExecutePayment E ap))
              = filter is_network evs
                  @ [LoadAccount (server (trader (core ap))) (the (stellar_secret_key ap))]"
      by (simp add: h)
    from ap show "\<forall>acc. loadAccount E (server (trader (core ap)))
                  (trace (core ap) @ evs @ [ToastSuccess ''Payment executed successfully!''])
                  (the (stellar_secret_key ap)) = Inr acc \<longrightarrow>
             balance (ui_state (handleExecutePayment E ap)) =
               Some \<lparr> xlm = balance_of (\<lambda>b. asset_type b = ''native'') (balances acc),
                      usd = balance_of (\<lambda>b. asset_code b = Some ''USD'') (balances acc) \<rparr>"
      by (simp add: h)
  qed
qed


text \<open>
  C1, as the code has it: with an incomplete form (empty amount, amount that is not a
  number, or empty destination) the handler makes no network call. Otherwise, for a
  connected trader, the network calls of a run are, in this order and each only when
  the step before it succeeded: the load of the account of the stored key pair's
  public key; the submission of a transaction built on the loaded account and signed
  with the stored key pair; and, after an accepted submission and when local storage
  holds a secret key, one more load of an account, whose balances are shown when that
  load succeeds.
\<close>

theorem payment_flow_steps:
  "(form_incomplete E (ui_state ap) \<longrightarrow>
      network_calls (core ap) (core (handleExecutePayment E ap)) = [])
   \<and> (\<forall>kp. \<not> form_incomplete E (ui_state ap) \<and> keypair (trader (core ap)) = Some kp \<longrightarrow>
        (case loadAccount E (server (trader (core ap))) (trace (core ap)) (publicKey kp) of
           Inl e \<Rightarrow>
             network_calls (core ap) (core (handleExecutePayment E ap))
               = [LoadAccount (server (trader (core ap))) (publicKey kp)]
         | Inr acc \<Rightarrow>
             (case build_payment E (trader (core ap)) kp acc (destination (ui_state ap))
                     (amount (ui_state ap)) (fromCurrency (ui_state ap)) (memo (ui_state ap)) of
                Inl e \<Rightarrow>
                  network_calls (core ap) (core (handleExecutePayment E ap))
                    = [LoadAccount (server (trader (core ap))) (publicKey kp)]
              | Inr tx \<Rightarrow>
                  signatures tx = [kp] \<and> b_source (contents tx) = acc
                \<and> (case submitTransaction E (server (trader (core ap)))
                           (trace (core ap) @ [LoadAccount (server (trader (core ap))) (publicKey kp)]) tx of
                      Inl e \<Rightarrow>
                        network_calls (core ap) (core (handleExecutePayment E ap))
                          = [LoadAccount (server (trader (core ap))) (publicKey kp),
                             SubmitTransaction (server (trader (core ap))) tx]
                    | Inr res \<Rightarrow>
                        (if truthy (stellar_secret_key ap) then
                           (\<exists>x. network_calls (core ap) (core (handleExecutePayment E ap))
                                  = [LoadAccount (server (trader (core ap))) (publicKey kp),
                                     SubmitTransaction (server (trader (core ap))) tx,
                                     LoadAccount (server (trader (core ap))) x]
                              \<and> (\<forall>acc'. loadAccount E (server (trader (core ap)))
                                          (trace (core ap)
                                            @ [LoadAccount (server (trader (core ap))) (publicKey kp),
                                               SubmitTransaction (server (trader (core ap))) tx,
                                               ToastSuccess ''Payment executed successfully!'']) x
                                         = Inr acc' \<longrightarrow>
                                    balance (ui_state (handleExecutePayment E ap)) =
                                      Some \<lparr> xlm = balance_of (\<lambda>b. asset_type b = ''native'') (balances acc'),
                                             usd = balance_of (\<lambda>b. asset_code b = Some ''USD'') (balances acc') \<rparr>))
                         else
                           network_calls (core ap) (core (handleExecutePayment E ap))
                             = [LoadAccount (server (trader (core ap))) (publicKey kp),
                                SubmitTransaction (server (trader (core ap))) tx])))))"
proof (intro conjI allI impI)
  assume "form_incomplete E (ui_state ap)"
  then have "trace (core (handleExecutePayment E ap)) =
               trace (core ap) @ [ToastError ''Please fill in all required fields'']"
    by (simp add: handleExecutePayment_def emit_app_def emit_def)
  from network_calls_append [OF this]
  show "network_calls (core ap) (core (handleExecutePayment E ap)) = []" by simp
next
  fix kp
  let ?s = "core ap" and ?u = "ui_state ap"
  let ?srv = "server (trader ?s)" and ?pk = "publicKey kp"
  let ?calls = "network_calls ?s (core (handleExecutePayment E ap))"
  assume h: "\<not> form_incomplete E ?u \<and> keypair (trader ?s) = Some kp"
  then have g: "\<not> form_incomplete E ?u" and k: "keypair (trader ?s) = Some kp" by simp_all
  show "(case loadAccount E ?srv (trace ?s) ?pk of
           Inl e \<Rightarrow> ?calls = [LoadAccount ?srv ?pk]
         | Inr acc \<Rightarrow>
             (case build_payment E (trader ?s) kp acc (destination ?u)
                     (amount ?u) (fromCurrency ?u) (memo ?u) of
                Inl e \<Rightarrow> ?calls = [LoadAccount ?srv ?pk]
              | Inr tx \<Rightarrow>
                  signatures tx = [kp] \<and> b_source (contents tx) = acc
                \<and> (case submitTransaction E ?srv (trace ?s @ [LoadAccount ?srv ?pk]) tx of
                      Inl e \<Rightarrow> ?calls = [LoadAccount ?srv ?pk, SubmitTransaction ?srv tx]
                    | Inr res \<Rightarrow>
                        (if truthy (stellar_secret_key ap) then
                           (\<exists>x. ?calls = [LoadAccount ?srv ?pk, SubmitTransaction ?srv tx, LoadAccount ?srv x]
                              \<and> (\<forall>acc'. loadAccount E ?srv
                                          (trace ?s @ [LoadAccount ?srv ?pk, SubmitTransaction ?srv tx,
                                               ToastSuccess ''Payment executed successfully!'']) x
                                         = Inr acc' \<longrightarrow>
                                    balance (ui_state (handleExecutePayment E ap)) =
                                      Some \<lparr> xlm = balance_of (\<lambda>b. asset_type b = ''native'') (balances acc'),
                                             usd = balance_of (\<lambda>b. asset_code b = Some ''USD'') (balances acc') \<rparr>))
                         else ?calls = [LoadAccount ?srv ?pk, SubmitTransaction ?srv tx]))))"
  proof (cases "loadAccount E ?srv (trace ?s) ?pk")
    case (Inl e)
    from handler_thrown_calls [OF g k payment_try_load_fails [OF Inl]] Inl
    show ?thesis by simp
  next
    case l: (Inr acc)
    show ?thesis
    proof (cases "build_payment E (trader ?s) kp acc (destination ?u) (amount ?u) (fromCurrency ?u) (memo ?u)")
      case (Inl e)
      from handler_thrown_calls [OF g k payment_try_build_fails [OF l Inl]] l Inl
      show ?thesis by simp
    next
      case b: (Inr tx)
      from build_payment_built [OF b]
      have sg: "signatures tx = [kp]" "b_source (contents tx) = acc" by simp_all
      show ?thesis
      proof (cases "submitTransaction E ?srv (trace ?s @ [LoadAccount ?srv ?pk]) tx")
        case (Inl e)
        from handler_thrown_calls [OF g k payment_try_submit_fails [OF l b Inl]] l b Inl sg
        show ?thesis by simp
      next
        case u: (Inr res)
        note r = handler_returned_calls [OF g k payment_try_submitted [OF l b u]]
        show ?thesis
        proof (cases "truthy (stellar_secret_key ap)")
          case False
          with r l b u sg show ?thesis by simp
        next
          case True
          define x where "x = the (stellar_secret_key ap)"
          with True r have "?calls = [LoadAccount ?srv ?pk, SubmitTransaction ?srv tx, LoadAccount ?srv x]
              \<and> (\<forall>acc'. loadAccount E ?srv
                           (trace ?s @ [LoadAccount ?srv ?pk, SubmitTransaction ?srv tx,
                               ToastSuccess ''Payment executed successfully!'']) x = Inr acc' \<longrightarrow>
                     balance (ui_state (handleExecutePayment E ap)) =
                       Some \<lparr> xlm = balance_of (\<lambda>b. asset_type b = ''native'') (balances acc'),
                              usd = balance_of (\<lambda>b. asset_code b = Some ''USD'') (balances acc') \<rparr>)"
            by simp
          then have "\<exists>x. ?calls = [LoadAccount ?srv ?pk, SubmitTransaction ?srv tx, LoadAccount ?srv x]
              \<and> (\<forall>acc'. loadAccount E ?srv
                           (trace ?s @ [LoadAccount ?srv ?pk, SubmitTransaction ?srv tx,
                               ToastSuccess ''Payment executed successfully!'']) x = Inr acc' \<longrightarrow>
                     balance (ui_state (handleExecutePayment E ap)) =
                       Some \<lparr> xlm = balance_of (\<lambda>b. asset_type b = ''native'') (balances acc'),
                              usd = balance_of (\<lambda>b. asset_code b = Some ''USD'') (balances acc') \<rparr>)"
            by blast
          with True l b u sg show ?thesis by simp
        qed
      qed
    qed
  qed
qed


text \<open>
  The example runs of the handler: the form of \<open>app1\<close> against the server that knows
  every account, and against the server that knows only \<open>G1\<close>.
\<close>

lemma app1_facts:
  "core app1 = state1" "trace (core app1) = []"
  "server (trader (core app1)) = ''https://horizon-testnet.stellar.org''"
  "keypair (trader (core app1)) = Some kp1"
  "destination (ui_state app1) = ''G2''" "amount (ui_state app1) = ''5''"
  "fromCurrency (ui_state app1) = ''XLM''" "memo (ui_state app1) = []"
  "stellar_secret_key app1 = Some ''S1''"
  by (simp_all add: app1_def state1_eq initial_ui_def)

lemma build4:
  "build_payment env4 (trader state1) kp1 acct1 ''G2'' ''5'' ''XLM'' [] = Inr tx1"
  by (simp add: build_payment_def throw_if_def env1_def env4_def tx1_def state1_eq kp1_def Let_def)

theorem payment_flow_steps_witness:
  "form_incomplete env1 (ui_state app0)
   \<and> network_calls (core app0) (core (handleExecutePayment env1 app0)) = []
   \<and> \<not> form_incomplete env4 (ui_state app1)
   \<and> keypair (trader (core app1)) = Some kp1
   \<and> (\<exists>x. network_calls (core app1) (core (handleExecutePayment env4 app1))
            = [LoadAccount ''https://horizon-testnet.stellar.org'' ''G1'',
               SubmitTransaction ''https://horizon-testnet.stellar.org'' tx1,
               LoadAccount ''https://horizon-testnet.stellar.org'' x])
   \<and> balance (ui_state (handleExecutePayment env4 app1)) = Some \<lparr> xlm = ''100.0'', usd = ''0'' \<rparr>"
proof -
  have f0: "form_incomplete env1 (ui_state app0)"
    by (simp add: form_incomplete_def app0_def)
  have g: "\<not> form_incomplete env4 (ui_state app1)"
    by (simp add: form_incomplete_def app1_facts env4_def env1_def parse1_def)
  have l: "loadAccount env4 (server (trader (core app1))) (trace (core app1)) (publicKey kp1) = Inr acct1"
    by (simp add: env4_def)
  have b: "build_payment env4 (trader (core app1)) kp1 acct1 (destination (ui_state app1))
             (amount (ui_state app1)) (fromCurrency (ui_state app1)) (memo (ui_state app1)) = Inr tx1"
    using build4 by (simp add: app1_facts)
  have u: "submitTransaction env4 (server (trader (core app1)))
             (trace (core app1) @ [LoadAccount (server (trader (core app1))) (publicKey kp1)]) tx1
             = Inr \<lparr> result_hash = ''h1'' \<rparr>"
    by (simp add: env4_def env1_def)
  have t: "truthy (stellar_secret_key app1)"
    by (simp add: truthy_def app1_facts)
  have pk: "publicKey kp1 = ''G1''" by (simp add: kp1_def)
  from payment_flow_steps [of env1 app0] f0
  have c0: "network_calls (core app0) (core (handleExecutePayment env1 app0)) = []"
    by blast
  from payment_flow_steps [of env4 app1] g app1_facts(4)
  have "case loadAccount env4 (server (trader (core app1))) (trace (core app1)) (publicKey kp1) of
           Inl e \<Rightarrow>
             network_calls (core app1) (core (handleExecutePayment env4 app1))
               = [LoadAccount (server (trader (core app1))) (publicKey kp1)]
         | Inr acc \<Rightarrow>
             (case build_payment env4 (trader (core app1)) kp1 acc (destination (ui_state app1))
                     (amount (ui_state app1)) (fromCurrency (ui_state app1)) (memo (ui_state app1)) of
                Inl e \<Rightarrow>
                  network_calls (core app1) (core (handleExecutePayment env4 app1))
                    = [LoadAccount (server (trader (core app1))) (publicKey kp1)]
              | Inr tx \<Rightarrow>
                  signatures tx = [kp1] \<and> b_source (contents tx) = acc
                \<and> (case submitTransaction env4 (server (trader (core app1)))
                           (trace (core app1) @ [LoadAccount (server (trader (core app1))) (publicKey kp1)]) tx of
                      Inl e \<Rightarrow>
                        network_calls (core app1) (core (handleExecutePayment env4 app1))
                          = [LoadAccount (server (trader (core app1))) (publicKey kp1),
                             SubmitTransaction (server (trader (core app1))) tx]
                    | Inr res \<Rightarrow>
                        (if truthy (stellar_secret_key app1) then
                           (\<exists>x. network_calls (core app1) (core (handleExecutePayment env4 app1))
                                  = [LoadAccount (server (trader (core app1))) (publicKey kp1),
                                     SubmitTransaction (server (trader (core app1))) tx,
                                     LoadAccount (server (trader (core app1))) x]
                              \<and> (\<forall>acc'. loadAccount env4 (server (trader (core app1)))
                                          (trace (core app1)
                                            @ [LoadAccount (server (trader (core app1))) (publicKey kp1),
                                               SubmitTransaction (server (trader (core app1))) tx,
                                               ToastSuccess ''Payment executed successfully!'']) x
                                         = Inr acc' \<longrightarrow>
                                    balance (ui_state (handleExecutePayment env4 app1)) =
                                      Some \<lparr> xlm = balance_of (\<lambda>b. asset_type b = ''native'') (balances acc'),
                                             usd = balance_of (\<lambda>b. asset_code b = Some ''USD'') (balances acc') \<rparr>))
                         else
                           network_calls (core app1) (core (handleExecutePayment env4 app1))
                             = [LoadAccount (server (trader (core app1))) (publicKey kp1),
                                SubmitTransaction (server (trader (core app1))) tx])))"
    by blast
  then have "\<exists>x. network_calls (core app1) (core (handleExecutePayment env4 app1))
                   = [LoadAccount (server (trader (core app1))) (publicKey kp1),
                      SubmitTransaction (server (trader (core app1))) tx1,
                      LoadAccount (server (trader (core app1))) x]
              \<and> (\<forall>acc'. loadAccount env4 (server (trader (core app1)))
                           (trace (core app1)
                              @ [LoadAccount (server (trader (core app1))) (publicKey kp1),
                                 SubmitTransaction (server (trader (core app1))) tx1,
                                 ToastSuccess ''Payment executed successfully!'']) x
                          = Inr acc' \<longrightarrow>
                     balance (ui_state (handleExecutePayment env4 app1)) =
                       Some \<lparr> xlm = balance_of (\<lambda>b. asset_type b = ''native'') (balances acc'),
                              usd = balance_of (\<lambda>b. asset_code b = Some ''USD'') (balances acc') \<rparr>)"
    by (simp only: l b u t sum.case if_True)
  then obtain x where
    c: "network_calls (core app1) (core (handleExecutePayment env4 app1))
                   = [LoadAccount (server (trader (core app1))) (publicKey kp1),
                      SubmitTransaction (server (trader (core app1))) tx1,
                      LoadAccount (server (trader (core app1))) x]"
    and d: "\<forall>acc'. loadAccount env4 (server (trader (core app1)))
                           (trace (core app1)
                              @ [LoadAccount (server (trader (core app1))) (publicKey kp1),
                                 SubmitTransaction (server (trader (core app1))) tx1,
                                 ToastSuccess ''Payment executed successfully!'']) x
                          = Inr acc' \<longrightarrow>
                     balance (ui_state (handleExecutePayment env4 app1)) =
                       Some \<lparr> xlm = balance_of (\<lambda>b. asset_type b = ''native'') (balances acc'),
                              usd = balance_of (\<lambda>b. asset_code b = Some ''USD'') (balances acc') \<rparr>"
    by blast
  have "loadAccount env4 (server (trader (core app1)))
                           (trace (core app1)
                              @ [LoadAccount (server (trader (core app1))) (publicKey kp1),
                                 SubmitTransaction (server (trader (core app1))) tx1,
                                 ToastSuccess ''Payment executed successfully!'']) x = Inr acct1"
    by (simp add: env4_def)
  with d have "balance (ui_state (handleExecutePayment env4 app1)) =
                 Some \<lparr> xlm = balance_of (\<lambda>b. asset_type b = ''native'') (balances acct1),
                        usd = balance_of (\<lambda>b. asset_code b = Some ''USD'') (balances acct1) \<rparr>"
    by blast
  then have bal: "balance (ui_state (handleExecutePayment env4 app1)) = Some \<lparr> xlm = ''100.0'', usd = ''0'' \<rparr>"
    by (simp add: balance_of_def acct1_def)
  from c have "\<exists>x. network_calls (core app1) (core (handleExecutePayment env4 app1))
            = [LoadAccount ''https://horizon-testnet.stellar.org'' ''G1'',
               SubmitTransaction ''https://horizon-testnet.stellar.org'' tx1,
               LoadAccount ''https://horizon-testnet.stellar.org'' x]"
    by (simp add: app1_facts(3) pk)
  with f0 c0 g app1_facts(4) bal show ?thesis by blast
qed

theorem payment_flow_counterexample:
  "isReady (core app0)
   \<and> trace (core app0) = []
   \<and> trace (core (handleExecutePayment env1 app0)) = [ToastError ''Please fill in all required fields'']
   \<and> network_calls (core app0) (core (handleExecutePayment env1 app0)) = []"
proof -
  have f0: "form_incomplete env1 (ui_state app0)"
    by (simp add: form_incomplete_def app0_def)
  have c: "core app0 = state1" by (simp add: app0_def app1_def)
  have t: "trace (core (handleExecutePayment env1 app0)) = [ToastError ''Please fill in all required fields'']"
    using f0 by (simp add: handleExecutePayment_def emit_app_def emit_def c state1_eq)
  from c t show ?thesis
    by (simp add: network_calls_def emitted_def isReady_def state1_eq)
qed

text \<open>
  In the run against the server that knows only \<open>G1\<close>, the payment is accepted, and the
  load that follows asks for the account named by the string in local storage, the
  secret key \<open>S1\<close>, not for the account \<open>G1\<close> of the key pair; the server does not
  know it, so the handler reports a failed payment and shows no balance.
\<close>

lemma balance_reload_example:
  "trace (core (handleExecutePayment env1 app1)) =
     [LoadAccount ''https://horizon-testnet.stellar.org'' ''G1'',
      SubmitTransaction ''https://horizon-testnet.stellar.org'' tx1,
      ToastSuccess ''Payment executed successfully!'',
      LoadAccount ''https://horizon-testnet.stellar.org'' ''S1'',
      ConsoleError ''Failed to get account balance:''
        (ErrArg (JsError (Some ''Not Found'') (Some ''404''))),
      ConsoleError ''Payment failed:'' (ErrArg (Error ''Failed to get account balance: Not Found'')),
      ToastError ''Payment failed: Failed to get account balance: Not Found'']
   \<and> balance (ui_state (handleExecutePayment env1 app1)) = None"
proof -
  have g: "\<not> form_incomplete env1 (ui_state app1)"
    by (simp add: form_incomplete_def app1_facts env1_def parse1_def)
  have x: "executePayment env1 ''G2'' ''5'' (Some ''XLM'') (Some []) state1 =
             executePayment env1 ''G2'' ''5'' None None state1"
    using app1_facts(1,4) by (simp add: executePayment_def default_arg_def)
  have s: "server (trader state1) = ''https://horizon-testnet.stellar.org''" "trace state1 = []"
    by (simp_all add: state1_eq)
  have l: "loadAccount env1 ''https://horizon-testnet.stellar.org''
             [LoadAccount ''https://horizon-testnet.stellar.org'' ''G1'',
              SubmitTransaction ''https://horizon-testnet.stellar.org'' tx1,
              ToastSuccess ''Payment executed successfully!''] ''S1''
           = Inl (JsError (Some ''Not Found'') (Some ''404''))"
    by (simp add: env1_def)
  show ?thesis
    using g
    by (simp add: handleExecutePayment_def app1_facts x run1 after_payment_def truthy_def
          getAccountBalance_def emit_app_def emit_def handler_catch_def message_text_def
          message_or_def Error_def s l Let_def)
       (simp add: app1_def initial_ui_def)
qed

section \<open>Status labels\<close>



lemma list_rendered:
  "TransactionList L \<lparr> transactions = ts, showViewAll = Some False \<rparr> =
     Inr \<lparr> view_all = False,
            body = (if ts = [] then NoTransactions ''No transactions yet''
                    else Rows (map (\<lambda>(index, transaction). render_row L index transaction)
                                 (enumerate 0 ts))) \<rparr>"
  by (simp add: TransactionList_def)





section \<open>The rendered list\<close>

lemma enumerate_keys:
  "map (row_key \<circ> (\<lambda>(index, transaction). render_row L index transaction)) (enumerate n xs)
     = map tx_id xs"
  by (induction xs arbitrary: n) (simp_all add: render_row_def)

lemma handler_storage:
  "stellar_secret_key (handleExecutePayment E ap) = stellar_secret_key ap"
  by (simp add: handleExecutePayment_def after_payment_def handler_catch_def reset_form_def
        emit_app_def Let_def split: prod.splits sum.splits)

text \<open>
  With the \<open>View All\<close> button switched off, the list is rendered from the list supplied
  and from nothing else: the empty list as the line \<open>No transactions yet\<close>, any other
  list as one row for each transaction, in the order supplied, the row at each position
  rendered from the transaction at that position and keyed by its id.
\<close>

lemma list_renders_supplied:
  "(ts = [] \<longrightarrow>
      TransactionList L \<lparr> transactions = ts, showViewAll = Some False \<rparr>
        = Inr \<lparr> view_all = False, body = NoTransactions ''No transactions yet'' \<rparr>)
   \<and> (ts \<noteq> [] \<longrightarrow>
        (\<exists>rows. TransactionList L \<lparr> transactions = ts, showViewAll = Some False \<rparr>
                  = Inr \<lparr> view_all = False, body = Rows rows \<rparr>
           \<and> length rows = length ts
           \<and> map row_key rows = map tx_id ts
           \<and> (\<forall>i < length rows. rows ! i = render_row L i (ts ! i))))"
  by (simp add: list_rendered enumerate_keys nth_enumerate_eq)

text \<open>With the button on, which is the default, the component throws whatever the list.\<close>

lemma list_throws:
  "showViewAll props \<noteq> Some False \<Longrightarrow>
     TransactionList L props = Inl (ReferenceError ''ArrowRight'')"
  by (auto simp: TransactionList_def split: option.splits)

text \<open>
  C7: the list view is to render exactly the transactions its caller supplies, in the
  order supplied, and the empty list as \<open>No transactions yet\<close>. Called with a list of
  two transactions, or with the empty list, and \<open>showViewAll\<close> omitted or true, the
  component renders neither: it throws the reference error of the identifier
  \<open>ArrowRight\<close>, which the header uses and the file does not import.
\<close>

theorem list_not_rendered_by_default:
  "TransactionList locale1 \<lparr> transactions = [txn1, txn2], showViewAll = None \<rparr>
     = Inl (JsError (Some ''ArrowRight is not defined'') None)
   \<and> TransactionList locale1 \<lparr> transactions = [], showViewAll = None \<rparr>
     = Inl (JsError (Some ''ArrowRight is not defined'') None)
   \<and> TransactionList locale1 \<lparr> transactions = [txn1, txn2], showViewAll = Some True \<rparr>
     = Inl (JsError (Some ''ArrowRight is not defined'') None)"
  by (simp add: TransactionList_def ReferenceError_def)

end
